theory Spec2Isabelle
  imports Complex_Main "HOL-Library.AList" "HOL-Library.Sublist"
begin

section \<open>Multi-modal vector store index: data model\<close>

text \<open>
  The module \<^verbatim>\<open>llama_index/indices/multi_modal/base.py\<close> orchestrates calls to
  collaborators that live elsewhere: two embedding functions, the vector stores of a
  storage context, a document store, an index structure and an index store. The model
  keeps the orchestration as the source has it and takes the collaborators as
  parameters: a record of operations over an arbitrary world \<open>'w\<close> (everything the
  collaborators own). Every operation may raise, so it returns \<open>error + result\<close>
  together with the world it leaves behind.
\<close>

type_synonym ref = nat
  \<comment> \<open>the identity of a collaborator object (a vector store, a document store, ...)\<close>

type_synonym embedding = "real list"

type_synonym kwargs = "(string \<times> string) list"

datatype error =
    AssertionError
  | ValueError string
  | KeyError string
  | Raised string \<comment> \<open>an exception of a collaborator, propagated unmodified\<close>

datatype node_class = TextNode | ImageNode
  \<comment> \<open>\<^verbatim>\<open>isinstance(node, ImageNode)\<close> is \<open>node_class node = ImageNode\<close>\<close>

record node =
  node_id :: string
  node_text :: string
  node_class :: node_class
  embedding :: "embedding option"

record embed_model =
  model_name :: string
  multi_modal :: bool \<comment> \<open>\<^verbatim>\<open>isinstance(model, MultiModalEmbedding)\<close>\<close>

datatype embed_type = ModelName string | ModelObject embed_model

record storage_context =
  vector_stores :: "(string \<times> ref) list" \<comment> \<open>a dict, in insertion order\<close>
  docstore :: ref
  index_store :: ref

record service_context =
  embed_model :: embed_model

text \<open>
  The attributes of \<^verbatim>\<open>self\<close> that the methods read: those the base class
  \<^verbatim>\<open>VectorStoreIndex\<close> sets, extended by the two of the subclass.
\<close>

record vector_store_index =
  self_service_context :: service_context
  self_storage_context :: storage_context
  self_vector_store :: ref
  self_docstore :: ref
  self_index_struct :: ref
  self_store_nodes_override :: bool

record multi_modal_index = vector_store_index +
  self_image_embed_model :: embed_model
  self_image_vector_store :: ref

type_synonym ('a, 'w) op = "'w \<Rightarrow> (error + 'a) \<times> 'w"

record 'w services =
  embed_nodes :: "node list \<Rightarrow> embed_model \<Rightarrow> bool \<Rightarrow> (string \<rightharpoonup> embedding, 'w) op"
  embed_image_nodes :: "node list \<Rightarrow> embed_model \<Rightarrow> bool \<Rightarrow> (string \<rightharpoonup> embedding, 'w) op"
  async_embed_nodes :: "node list \<Rightarrow> embed_model \<Rightarrow> bool \<Rightarrow> (string \<rightharpoonup> embedding, 'w) op"
  async_embed_image_nodes ::
    "node list \<Rightarrow> embed_model \<Rightarrow> bool \<Rightarrow> (string \<rightharpoonup> embedding, 'w) op"
  stores_text :: "ref \<Rightarrow> bool"
  vector_store_add :: "ref \<Rightarrow> node list \<Rightarrow> kwargs \<Rightarrow> (string list, 'w) op"
  vector_store_async_add :: "ref \<Rightarrow> node list \<Rightarrow> kwargs \<Rightarrow> (string list, 'w) op"
  vector_store_delete :: "ref \<Rightarrow> string \<Rightarrow> (unit, 'w) op"
  add_node :: "ref \<Rightarrow> node \<Rightarrow> string \<Rightarrow> (unit, 'w) op"
  index_struct_delete :: "ref \<Rightarrow> string \<Rightarrow> (unit, 'w) op"
  add_documents :: "ref \<Rightarrow> node list \<Rightarrow> bool \<Rightarrow> (unit, 'w) op"
  get_ref_doc_info :: "ref \<Rightarrow> string \<Rightarrow> (string list option, 'w) op"
  docstore_delete_ref_doc :: "ref \<Rightarrow> string \<Rightarrow> bool \<Rightarrow> (unit, 'w) op"
  add_index_struct :: "ref \<Rightarrow> ref \<Rightarrow> (unit, 'w) op"

text \<open>
  Modelled from the spec: the constant \<^verbatim>\<open>DEFAULT_VECTOR_STORE\<close>, which the module
  imports from \<^verbatim>\<open>llama_index.vector_stores.simple\<close>; it is the name under which the
  primary (default) vector store is registered. No property below depends on its value.
\<close>

definition DEFAULT_VECTOR_STORE :: string where
  "DEFAULT_VECTOR_STORE = ''default''"

definition image_namespace :: string where
  "image_namespace = ''image''"

section \<open>Sequencing calls that may raise\<close>

definition return :: "'a \<Rightarrow> ('a, 'w) op" where
  "return a w = (Inr a, w)"

definition raise :: "error \<Rightarrow> ('a, 'w) op" where
  "raise e w = (Inl e, w)"

definition seq :: "('a, 'w) op \<Rightarrow> ('a \<Rightarrow> ('b, 'w) op) \<Rightarrow> ('b, 'w) op" where
  "seq m f w = (case m w of (Inl e, w') \<Rightarrow> (Inl e, w') | (Inr a, w') \<Rightarrow> f a w')"

text \<open>\<^verbatim>\<open>storage_context.vector_stores[namespace]\<close>: a missing key raises.\<close>

definition lookup_vector_store :: "storage_context \<Rightarrow> string \<Rightarrow> (ref, 'w) op" where
  "lookup_vector_store ctx namespace =
     (case map_of (vector_stores ctx) namespace of
        None \<Rightarrow> raise (KeyError namespace)
      | Some vector_store \<Rightarrow> return vector_store)"

section \<open>Insertion\<close>

text \<open>
  The loop at the end of \<^verbatim>\<open>_get_node_with_embedding\<close>: a node id absent from the
  returned map raises \<^verbatim>\<open>KeyError\<close>; otherwise a copy of the node carries the
  embedding.
\<close>

fun attach_embeddings :: "(string \<rightharpoonup> embedding) \<Rightarrow> node list \<Rightarrow> error + node list" where
  "attach_embeddings id_to_embed_map [] = Inr []"
| "attach_embeddings id_to_embed_map (node # nodes) =
     (case id_to_embed_map (node_id node) of
        None \<Rightarrow> Inl (KeyError (node_id node))
      | Some e \<Rightarrow>
          (case attach_embeddings id_to_embed_map nodes of
             Inl err \<Rightarrow> Inl err
           | Inr results \<Rightarrow> Inr (node\<lparr>embedding := Some e\<rparr> # results)))"

definition get_node_with_embedding ::
  "'w services \<Rightarrow> multi_modal_index \<Rightarrow> node list \<Rightarrow> bool \<Rightarrow> bool \<Rightarrow> (node list, 'w) op" where
  "get_node_with_embedding env self nodes show_progress is_image =
     seq (if is_image
          then embed_image_nodes env nodes (self_image_embed_model self) show_progress
          else embed_nodes env nodes (embed_model (self_service_context self)) show_progress)
       (\<lambda>id_to_embed_map w. (attach_embeddings id_to_embed_map nodes, w))"

definition aget_node_with_embedding ::
  "'w services \<Rightarrow> multi_modal_index \<Rightarrow> node list \<Rightarrow> bool \<Rightarrow> bool \<Rightarrow> (node list, 'w) op" where
  "aget_node_with_embedding env self nodes show_progress is_image =
     seq (if is_image
          then async_embed_image_nodes env nodes (self_image_embed_model self) show_progress
          else async_embed_nodes env nodes (embed_model (self_service_context self)) show_progress)
       (\<lambda>id_to_embed_map w. (attach_embeddings id_to_embed_map nodes, w))"

text \<open>
  The partition loop: a node is appended to \<^verbatim>\<open>image_nodes\<close> when it is an
  \<^verbatim>\<open>ImageNode\<close> and, independently, to \<^verbatim>\<open>text_nodes\<close> when its text is truthy.
\<close>

definition partition_step :: "node list \<times> node list \<Rightarrow> node \<Rightarrow> node list \<times> node list" where
  "partition_step acc node =
     (case acc of (image_nodes, text_nodes) \<Rightarrow>
        (if node_class node = ImageNode then image_nodes @ [node] else image_nodes,
         if node_text node \<noteq> [] then text_nodes @ [node] else text_nodes))"

definition partition_nodes :: "node list \<Rightarrow> node list \<times> node list" where
  "partition_nodes nodes = foldl partition_step ([], []) nodes"

text \<open>
  The mirroring loop over \<^verbatim>\<open>zip(all_nodes, all_new_ids)\<close>: the embedding is removed
  from a copy, which is registered in the index structure under the new id and added to
  the document store with \<^verbatim>\<open>allow_update=True\<close>.
\<close>

fun mirror_nodes ::
  "'w services \<Rightarrow> multi_modal_index \<Rightarrow> ref \<Rightarrow> (node \<times> string) list \<Rightarrow> (unit, 'w) op" where
  "mirror_nodes env self index_struct [] = return ()"
| "mirror_nodes env self index_struct ((node, new_id) # rest) =
     (let node_without_embedding = node\<lparr>embedding := None\<rparr> in
      seq (add_node env index_struct node_without_embedding new_id) (\<lambda>_.
      seq (add_documents env (self_docstore self) [node_without_embedding] True) (\<lambda>_.
      mirror_nodes env self index_struct rest)))"

definition add_nodes_to_index ::
  "'w services \<Rightarrow> multi_modal_index \<Rightarrow> ref \<Rightarrow> node list \<Rightarrow> bool \<Rightarrow> kwargs \<Rightarrow> (unit, 'w) op" where
  "add_nodes_to_index env self index_struct nodes show_progress insert_kwargs =
     (if nodes = [] then return ()
      else case partition_nodes nodes of (image_nodes, text_nodes) \<Rightarrow>
        seq (get_node_with_embedding env self text_nodes show_progress False) (\<lambda>text_nodes.
        seq (lookup_vector_store (self_storage_context self) DEFAULT_VECTOR_STORE) (\<lambda>store.
        seq (vector_store_add env store text_nodes insert_kwargs) (\<lambda>new_text_ids.
        seq (get_node_with_embedding env self image_nodes show_progress True) (\<lambda>image_nodes.
        seq (lookup_vector_store (self_storage_context self) image_namespace) (\<lambda>image_store.
        seq (vector_store_add env image_store image_nodes insert_kwargs) (\<lambda>new_img_ids.
          let all_nodes = text_nodes @ image_nodes;
              all_new_ids = new_text_ids @ new_img_ids
          in if \<not> stores_text env (self_vector_store self) \<or> self_store_nodes_override self
             then mirror_nodes env self index_struct (zip all_nodes all_new_ids)
             else return ())))))))"

definition async_add_nodes_to_index ::
  "'w services \<Rightarrow> multi_modal_index \<Rightarrow> ref \<Rightarrow> node list \<Rightarrow> bool \<Rightarrow> kwargs \<Rightarrow> (unit, 'w) op" where
  "async_add_nodes_to_index env self index_struct nodes show_progress insert_kwargs =
     (if nodes = [] then return ()
      else case partition_nodes nodes of (image_nodes, text_nodes) \<Rightarrow>
        seq (aget_node_with_embedding env self text_nodes show_progress False) (\<lambda>text_nodes.
        seq (lookup_vector_store (self_storage_context self) DEFAULT_VECTOR_STORE) (\<lambda>store.
        seq (vector_store_async_add env store text_nodes insert_kwargs) (\<lambda>new_text_ids.
        seq (aget_node_with_embedding env self image_nodes show_progress True) (\<lambda>image_nodes.
        seq (lookup_vector_store (self_storage_context self) image_namespace) (\<lambda>image_store.
        seq (vector_store_async_add env image_store image_nodes insert_kwargs) (\<lambda>new_img_ids.
          let all_nodes = text_nodes @ image_nodes;
              all_new_ids = new_text_ids @ new_img_ids
          in if \<not> stores_text env (self_vector_store self) \<or> self_store_nodes_override self
             then mirror_nodes env self index_struct (zip all_nodes all_new_ids)
             else return ())))))))"

section \<open>Deletion\<close>

text \<open>The inner loop of \<^verbatim>\<open>delete_ref_doc\<close> over \<^verbatim>\<open>ref_doc_info.node_ids\<close>.\<close>

fun delete_node_ids :: "'w services \<Rightarrow> multi_modal_index \<Rightarrow> string list \<Rightarrow> (unit, 'w) op" where
  "delete_node_ids env self [] = return ()"
| "delete_node_ids env self (node_id' # rest) =
     seq (index_struct_delete env (self_index_struct self) node_id') (\<lambda>_.
     seq (vector_store_delete env (self_vector_store self) node_id') (\<lambda>_.
     delete_node_ids env self rest))"

text \<open>
  The outer loop over \<^verbatim>\<open>self._storage_context.vector_stores.values()\<close>. The test
  on \<^verbatim>\<open>self._store_nodes_override or self._vector_store.stores_text\<close> and the
  clean-up it guards are inside the loop body, as the source's indentation has them.
\<close>

fun delete_from_vector_stores ::
  "'w services \<Rightarrow> multi_modal_index \<Rightarrow> string \<Rightarrow> ref list \<Rightarrow> (unit, 'w) op" where
  "delete_from_vector_stores env self ref_doc_id [] = return ()"
| "delete_from_vector_stores env self ref_doc_id (vector_store # rest) =
     seq (vector_store_delete env vector_store ref_doc_id) (\<lambda>_.
     seq (if self_store_nodes_override self \<or> stores_text env (self_vector_store self)
          then seq (get_ref_doc_info env (self_docstore self) ref_doc_id) (\<lambda>ref_doc_info.
                 case ref_doc_info of
                   None \<Rightarrow> return ()
                 | Some node_ids \<Rightarrow> delete_node_ids env self node_ids)
          else return ()) (\<lambda>_.
     delete_from_vector_stores env self ref_doc_id rest))"

definition delete_ref_doc ::
  "'w services \<Rightarrow> multi_modal_index \<Rightarrow> string \<Rightarrow> bool \<Rightarrow> kwargs \<Rightarrow> (unit, 'w) op" where
  "delete_ref_doc env self ref_doc_id delete_from_docstore delete_kwargs =
     seq (delete_from_vector_stores env self ref_doc_id
            (map snd (vector_stores (self_storage_context self)))) (\<lambda>_.
     seq (if delete_from_docstore
          then docstore_delete_ref_doc env (self_docstore self) ref_doc_id False
          else return ()) (\<lambda>_.
     add_index_struct env (index_store (self_storage_context self)) (self_index_struct self)))"

section \<open>Construction\<close>

text \<open>
  What \<^verbatim>\<open>__init__\<close> calls and the module does not define: the resolution of the
  embedding model, the default storage context, a fresh \<^verbatim>\<open>SimpleVectorStore\<close>,
  and the constructor of the base class, which receives the two attributes already set
  and the arguments passed on, and returns the attributes it sets.
\<close>

record 'w factories =
  resolve_embed_model :: "embed_type \<Rightarrow> (embed_model, 'w) op"
  storage_context_from_defaults :: "ref option \<Rightarrow> (storage_context, 'w) op"
  new_simple_vector_store :: "(ref, 'w) op"
  super_init ::
    "embed_model \<Rightarrow> ref \<Rightarrow> node list option \<Rightarrow> ref option \<Rightarrow> service_context option \<Rightarrow>
     storage_context \<Rightarrow> bool \<Rightarrow> bool \<Rightarrow> bool \<Rightarrow> kwargs \<Rightarrow> (vector_store_index, 'w) op"

text \<open>\<^verbatim>\<open>StorageContext.add_vector_store\<close>: assignment to a key of the dict.\<close>

definition add_vector_store :: "ref \<Rightarrow> string \<Rightarrow> storage_context \<Rightarrow> storage_context" where
  "add_vector_store vector_store namespace ctx =
     ctx\<lparr>vector_stores := AList.update namespace vector_store (vector_stores ctx)\<rparr>"

definition init ::
  "'w factories \<Rightarrow> node list option \<Rightarrow> ref option \<Rightarrow> service_context option \<Rightarrow>
   storage_context option \<Rightarrow> bool \<Rightarrow> bool \<Rightarrow> bool \<Rightarrow> ref option \<Rightarrow> embed_type \<Rightarrow> kwargs \<Rightarrow>
   (multi_modal_index, 'w) op" where
  "init fac nodes index_struct service_context storage_context use_async
        store_nodes_override show_progress image_vector_store image_embed_model kwargs =
     seq (resolve_embed_model fac image_embed_model) (\<lambda>image_embed_model.
     if \<not> multi_modal image_embed_model then raise AssertionError
     else
     seq (case storage_context of
            Some ctx \<Rightarrow> return ctx
          | None \<Rightarrow> storage_context_from_defaults fac None) (\<lambda>storage_context.
     let storage_context =
           (case image_vector_store of
              Some store \<Rightarrow> add_vector_store store image_namespace storage_context
            | None \<Rightarrow> storage_context)
     in
     seq (if map_of (vector_stores storage_context) image_namespace = None
          then seq (new_simple_vector_store fac) (\<lambda>store.
                 return (add_vector_store store image_namespace storage_context))
          else return storage_context) (\<lambda>storage_context.
     seq (lookup_vector_store storage_context image_namespace) (\<lambda>image_store.
     seq (super_init fac image_embed_model image_store nodes index_struct service_context
            storage_context show_progress use_async store_nodes_override kwargs) (\<lambda>base.
     return (vector_store_index.extend base
       \<lparr>self_image_embed_model = image_embed_model,
        self_image_vector_store = image_store\<rparr>))))))"

text \<open>
  \<^verbatim>\<open>from_vector_store\<close>. The keyword arguments of \<^verbatim>\<open>__init__\<close> that the caller may
  pass in \<^verbatim>\<open>**kwargs\<close> are parameters here, the rest is \<open>kwargs\<close>.
\<close>

definition from_vector_store ::
  "'w services \<Rightarrow> 'w factories \<Rightarrow> ref \<Rightarrow> service_context option \<Rightarrow> ref option \<Rightarrow> embed_type \<Rightarrow>
   ref option \<Rightarrow> bool \<Rightarrow> bool \<Rightarrow> bool \<Rightarrow> kwargs \<Rightarrow> (multi_modal_index, 'w) op" where
  "from_vector_store env fac vector_store service_context image_vector_store image_embed_model
        index_struct use_async store_nodes_override show_progress kwargs =
     (if \<not> stores_text env vector_store
      then raise (ValueError ''Cannot initialize from a vector store that does not store text.'')
      else
        seq (storage_context_from_defaults fac (Some vector_store)) (\<lambda>storage_context.
        init fac (Some []) index_struct service_context (Some storage_context) use_async
          store_nodes_override show_progress image_vector_store image_embed_model kwargs))"

section \<open>Observing the calls made\<close>

text \<open>
  To state which collaborator calls a method makes, with which arguments and in which
  order, any collaborators \<open>env\<close> are wrapped so that each call is also appended, with
  its outcome, to a log carried beside the world. The wrapped collaborators behave as
  \<open>env\<close> does.
\<close>

datatype call =
    EmbedNodes "node list" embed_model bool
  | EmbedImageNodes "node list" embed_model bool
  | AsyncEmbedNodes "node list" embed_model bool
  | AsyncEmbedImageNodes "node list" embed_model bool
  | VectorStoreAdd ref "node list" kwargs
  | VectorStoreAsyncAdd ref "node list" kwargs
  | VectorStoreDelete ref string
  | AddNode ref node string
  | IndexStructDelete ref string
  | AddDocuments ref "node list" bool
  | GetRefDocInfo ref string
  | DocstoreDeleteRefDoc ref string bool
  | AddIndexStruct ref ref

datatype outcome =
    Raises error
  | Returns
  | ReturnsEmbeddings "string \<rightharpoonup> embedding"
  | ReturnsIds "string list"
  | ReturnsRefDocInfo "string list option"

type_synonym log = "(call \<times> outcome) list"

definition logged :: "call \<Rightarrow> ('a \<Rightarrow> outcome) \<Rightarrow> ('a, 'w) op \<Rightarrow> ('a, 'w \<times> log) op" where
  "logged c ret f wl =
     (case wl of (w, l) \<Rightarrow>
        (case f w of (r, w') \<Rightarrow>
           (r, (w', l @ [(c, case r of Inl e \<Rightarrow> Raises e | Inr a \<Rightarrow> ret a)]))))"

definition spy :: "'w services \<Rightarrow> ('w \<times> log) services" where
  "spy env =
     \<lparr>embed_nodes = (\<lambda>ns m p. logged (EmbedNodes ns m p) ReturnsEmbeddings (embed_nodes env ns m p)),
      embed_image_nodes = (\<lambda>ns m p.
        logged (EmbedImageNodes ns m p) ReturnsEmbeddings (embed_image_nodes env ns m p)),
      async_embed_nodes = (\<lambda>ns m p.
        logged (AsyncEmbedNodes ns m p) ReturnsEmbeddings (async_embed_nodes env ns m p)),
      async_embed_image_nodes = (\<lambda>ns m p.
        logged (AsyncEmbedImageNodes ns m p) ReturnsEmbeddings
          (async_embed_image_nodes env ns m p)),
      stores_text = stores_text env,
      vector_store_add = (\<lambda>s ns k.
        logged (VectorStoreAdd s ns k) ReturnsIds (vector_store_add env s ns k)),
      vector_store_async_add = (\<lambda>s ns k.
        logged (VectorStoreAsyncAdd s ns k) ReturnsIds (vector_store_async_add env s ns k)),
      vector_store_delete = (\<lambda>s i.
        logged (VectorStoreDelete s i) (\<lambda>_. Returns) (vector_store_delete env s i)),
      add_node = (\<lambda>x n i. logged (AddNode x n i) (\<lambda>_. Returns) (add_node env x n i)),
      index_struct_delete = (\<lambda>x i.
        logged (IndexStructDelete x i) (\<lambda>_. Returns) (index_struct_delete env x i)),
      add_documents = (\<lambda>d ns u.
        logged (AddDocuments d ns u) (\<lambda>_. Returns) (add_documents env d ns u)),
      get_ref_doc_info = (\<lambda>d i.
        logged (GetRefDocInfo d i) ReturnsRefDocInfo (get_ref_doc_info env d i)),
      docstore_delete_ref_doc = (\<lambda>d i r.
        logged (DocstoreDeleteRefDoc d i r) (\<lambda>_. Returns) (docstore_delete_ref_doc env d i r)),
      add_index_struct = (\<lambda>s x.
        logged (AddIndexStruct s x) (\<lambda>_. Returns) (add_index_struct env s x))\<rparr>"

text \<open>The calls a method makes when started in world \<open>w\<close>, and its result there.\<close>

definition calls_of :: "('a, 'w \<times> log) op \<Rightarrow> 'w \<Rightarrow> log" where
  "calls_of m w = snd (snd (m (w, [])))"

definition result_of :: "('a, 'w \<times> log) op \<Rightarrow> 'w \<Rightarrow> error + 'a" where
  "result_of m w = fst (m (w, []))"

section \<open>Sample collaborators\<close>

text \<open>
  Collaborators without state, to run the methods on concrete inputs: the text embedder
  gives every node the vector \<open>[1]\<close>, the image embedder the vector \<open>[2]\<close> unless it
  is told to fail, a vector store answers \<^verbatim>\<open>add\<close> with the node ids, the document
  store answers every reverse lookup with \<open>info\<close>, and nothing else raises.
\<close>

definition sample_embedding :: "embedding \<Rightarrow> node list \<Rightarrow> (string \<rightharpoonup> embedding)" where
  "sample_embedding v nodes = map_of (map (\<lambda>n. (node_id n, v)) nodes)"

definition sample_services :: "(ref \<Rightarrow> bool) \<Rightarrow> bool \<Rightarrow> string list option \<Rightarrow> unit services" where
  "sample_services keeps_text image_fails info =
     \<lparr>embed_nodes = (\<lambda>ns m p. return (sample_embedding [1] ns)),
      embed_image_nodes = (\<lambda>ns m p.
        if image_fails then raise (Raised ''image embedding failed'')
        else return (sample_embedding [2] ns)),
      async_embed_nodes = (\<lambda>ns m p. return (sample_embedding [1] ns)),
      async_embed_image_nodes = (\<lambda>ns m p.
        if image_fails then raise (Raised ''image embedding failed'')
        else return (sample_embedding [2] ns)),
      stores_text = keeps_text,
      vector_store_add = (\<lambda>s ns k. return (map node_id ns)),
      vector_store_async_add = (\<lambda>s ns k. return (map node_id ns)),
      vector_store_delete = (\<lambda>s i. return ()),
      add_node = (\<lambda>x n i. return ()),
      index_struct_delete = (\<lambda>x i. return ()),
      add_documents = (\<lambda>d ns u. return ()),
      get_ref_doc_info = (\<lambda>d i. return info),
      docstore_delete_ref_doc = (\<lambda>d i r. return ()),
      add_index_struct = (\<lambda>s x. return ())\<rparr>"

definition text_model :: embed_model where
  "text_model = \<lparr>model_name = ''text'', multi_modal = False\<rparr>"

definition clip_model :: embed_model where
  "clip_model = \<lparr>model_name = ''clip'', multi_modal = True\<rparr>"

definition sample_context :: storage_context where
  "sample_context =
     \<lparr>vector_stores = [(''default'', 0), (''image'', 1)], docstore = 2, index_store = 3\<rparr>"

definition sample_index :: "bool \<Rightarrow> multi_modal_index" where
  "sample_index override =
     \<lparr>self_service_context = \<lparr>embed_model = text_model\<rparr>,
      self_storage_context = sample_context,
      self_vector_store = 0,
      self_docstore = 2,
      self_index_struct = 4,
      self_store_nodes_override = override,
      self_image_embed_model = clip_model,
      self_image_vector_store = 1\<rparr>"

definition sample_factories :: "unit factories" where
  "sample_factories =
     \<lparr>resolve_embed_model = (\<lambda>t.
        case t of
          ModelName n \<Rightarrow> return \<lparr>model_name = n, multi_modal = (n = ''clip'')\<rparr>
        | ModelObject m \<Rightarrow> return m),
      storage_context_from_defaults = (\<lambda>store.
        return \<lparr>vector_stores = [(''default'', case store of Some s \<Rightarrow> s | None \<Rightarrow> 0)],
                docstore = 2, index_store = 3\<rparr>),
      new_simple_vector_store = return 1,
      super_init = (\<lambda>image_model image_store nodes index_struct service_context ctx
                     show_progress use_async override kwargs.
        return \<lparr>self_service_context =
                   (case service_context of
                      Some c \<Rightarrow> c
                    | None \<Rightarrow> \<lparr>embed_model = text_model\<rparr>),
                 self_storage_context = ctx,
                 self_vector_store = 0,
                 self_docstore = docstore ctx,
                 self_index_struct = (case index_struct of Some x \<Rightarrow> x | None \<Rightarrow> 4),
                 self_store_nodes_override = override\<rparr>)\<rparr>"

definition text_node :: node where
  "text_node =
     \<lparr>node_id = ''a'', node_text = ''hello'', node_class = TextNode, embedding = None\<rparr>"

definition image_node :: node where
  "image_node =
     \<lparr>node_id = ''b'', node_text = ''a cat'', node_class = ImageNode, embedding = None\<rparr>"

definition bare_image_node :: node where
  "bare_image_node =
     \<lparr>node_id = ''c'', node_text = [], node_class = ImageNode, embedding = None\<rparr>"

definition empty_node :: node where
  "empty_node =
     \<lparr>node_id = ''d'', node_text = [], node_class = TextNode, embedding = None\<rparr>"

section \<open>Vocabulary of the properties\<close>

text \<open>
  \<open>effect m Q\<close>: from any world and any log, \<open>m\<close> only appends to the log, and its
  result \<open>r\<close> and the calls \<open>ext\<close> it appends satisfy \<open>Q r ext\<close>.
\<close>

definition effect :: "('a, 'w \<times> log) op \<Rightarrow> ((error + 'a) \<Rightarrow> log \<Rightarrow> bool) \<Rightarrow> bool" where
  "effect m Q \<longleftrightarrow> (\<forall>w l. case m (w, l) of (r, (w', l')) \<Rightarrow> \<exists>ext. l' = l @ ext \<and> Q r ext)"

text \<open>The condition under which insertion mirrors nodes (lines 233 and 284).\<close>

definition mirrors :: "'w services \<Rightarrow> multi_modal_index \<Rightarrow> bool" where
  "mirrors env self \<longleftrightarrow>
     \<not> stores_text env (self_vector_store self) \<or> self_store_nodes_override self"

definition image_bearing :: "node \<Rightarrow> bool" where
  "image_bearing n \<longleftrightarrow> node_class n = ImageNode"

definition has_text :: "node \<Rightarrow> bool" where
  "has_text n \<longleftrightarrow> node_text n \<noteq> []"

definition image_partition :: "node list \<Rightarrow> node list" where
  "image_partition nodes = fst (partition_nodes nodes)"

definition text_partition :: "node list \<Rightarrow> node list" where
  "text_partition nodes = snd (partition_nodes nodes)"

text \<open>
  Either entry point of insertion, and the step that embeds a partition in it; the calls
  the two entry points make differ in name only.
\<close>

definition insert_nodes ::
  "bool \<Rightarrow> 'w services \<Rightarrow> multi_modal_index \<Rightarrow> ref \<Rightarrow> node list \<Rightarrow> bool \<Rightarrow> kwargs \<Rightarrow>
   (unit, 'w) op" where
  "insert_nodes use_async =
     (if use_async then async_add_nodes_to_index else add_nodes_to_index)"

definition get_nodes ::
  "bool \<Rightarrow> 'w services \<Rightarrow> multi_modal_index \<Rightarrow> node list \<Rightarrow> bool \<Rightarrow> bool \<Rightarrow>
   (node list, 'w) op" where
  "get_nodes use_async =
     (if use_async then aget_node_with_embedding else get_node_with_embedding)"

definition embed_call :: "bool \<Rightarrow> multi_modal_index \<Rightarrow> node list \<Rightarrow> bool \<Rightarrow> bool \<Rightarrow> call" where
  "embed_call use_async self nodes show_progress is_image =
     (if is_image
      then (if use_async then AsyncEmbedImageNodes else EmbedImageNodes)
             nodes (self_image_embed_model self) show_progress
      else (if use_async then AsyncEmbedNodes else EmbedNodes)
             nodes (embed_model (self_service_context self)) show_progress)"

definition add_call :: "bool \<Rightarrow> ref \<Rightarrow> node list \<Rightarrow> kwargs \<Rightarrow> call" where
  "add_call use_async = (if use_async then VectorStoreAsyncAdd else VectorStoreAdd)"

text \<open>Copies of the nodes, each with the embedding the map holds for its id.\<close>

definition with_embeddings :: "(string \<rightharpoonup> embedding) \<Rightarrow> node list \<Rightarrow> node list" where
  "with_embeddings id_to_embed_map nodes =
     map (\<lambda>n. n\<lparr>embedding := id_to_embed_map (node_id n)\<rparr>) nodes"

text \<open>The calls that mirror a list of (node, new id) pairs, in order.\<close>

definition mirror_calls :: "multi_modal_index \<Rightarrow> ref \<Rightarrow> (node \<times> string) list \<Rightarrow> call list" where
  "mirror_calls self index_struct pairs =
     concat (map (\<lambda>(n, new_id).
       [AddNode index_struct (n\<lparr>embedding := None\<rparr>) new_id,
        AddDocuments (self_docstore self) [n\<lparr>embedding := None\<rparr>] True]) pairs)"

text \<open>
  The log of an insertion in which nothing raises: the stores are \<open>store\<close> and
  \<open>image_store\<close>, the embedders return \<open>temb\<close> and \<open>iemb\<close>, the two \<^verbatim>\<open>add\<close> calls
  return \<open>tids\<close> and \<open>iids\<close>.
\<close>

definition insert_log ::
  "bool \<Rightarrow> bool \<Rightarrow> multi_modal_index \<Rightarrow> ref \<Rightarrow> node list \<Rightarrow> bool \<Rightarrow> kwargs \<Rightarrow> ref \<Rightarrow> ref \<Rightarrow>
   (string \<rightharpoonup> embedding) \<Rightarrow> string list \<Rightarrow> (string \<rightharpoonup> embedding) \<Rightarrow> string list \<Rightarrow> log" where
  "insert_log use_async mirror self ix nodes sp kw store image_store temb tids iemb iids =
     (let text_nodes = with_embeddings temb (text_partition nodes);
          image_nodes = with_embeddings iemb (image_partition nodes)
      in [(embed_call use_async self (text_partition nodes) sp False, ReturnsEmbeddings temb),
          (add_call use_async store text_nodes kw, ReturnsIds tids),
          (embed_call use_async self (image_partition nodes) sp True, ReturnsEmbeddings iemb),
          (add_call use_async image_store image_nodes kw, ReturnsIds iids)] @
         (if mirror
          then map (\<lambda>c. (c, Returns))
                 (mirror_calls self ix (zip (text_nodes @ image_nodes) (tids @ iids)))
          else []))"

text \<open>The nodes a call hands to the index structure or the document store.\<close>

fun mirrored_nodes :: "call \<Rightarrow> node list" where
  "mirrored_nodes (AddNode x n i) = [n]"
| "mirrored_nodes (AddDocuments d ns u) = ns"
| "mirrored_nodes c = []"

text \<open>The nodes a call hands to any collaborator.\<close>

fun nodes_of_call :: "call \<Rightarrow> node list" where
  "nodes_of_call (EmbedNodes ns m p) = ns"
| "nodes_of_call (EmbedImageNodes ns m p) = ns"
| "nodes_of_call (AsyncEmbedNodes ns m p) = ns"
| "nodes_of_call (AsyncEmbedImageNodes ns m p) = ns"
| "nodes_of_call (VectorStoreAdd s ns k) = ns"
| "nodes_of_call (VectorStoreAsyncAdd s ns k) = ns"
| "nodes_of_call (AddNode x n i) = [n]"
| "nodes_of_call (AddDocuments d ns u) = ns"
| "nodes_of_call c = []"

text \<open>A copy of a node, whatever embedding it carries.\<close>

definition copy_of :: "node \<Rightarrow> node \<Rightarrow> bool" where
  "copy_of m n \<longleftrightarrow>
     node_id m = node_id n \<and> node_text m = node_text n \<and> node_class m = node_class n"

text \<open>The calls that change the index structure or add to the document store.\<close>

fun is_mirror_call :: "call \<Rightarrow> bool" where
  "is_mirror_call (AddNode x n i) = True"
| "is_mirror_call (AddDocuments d ns u) = True"
| "is_mirror_call c = False"

text \<open>Outcomes of a call: it raised; a reverse lookup found node ids.\<close>

fun raised :: "outcome \<Rightarrow> bool" where
  "raised (Raises e) = True"
| "raised out = False"

fun found :: "outcome \<Rightarrow> bool" where
  "found (ReturnsRefDocInfo (Some node_ids)) = True"
| "found out = False"

text \<open>
  The calls of a deletion in which nothing raises and no reverse lookup finds node ids;
  \<open>cleanup\<close> is the test of line 304.
\<close>

definition delete_calls :: "multi_modal_index \<Rightarrow> bool \<Rightarrow> string \<Rightarrow> bool \<Rightarrow> call list" where
  "delete_calls self cleanup ref_doc_id delete_from_docstore =
     concat (map (\<lambda>store.
        VectorStoreDelete store ref_doc_id #
        (if cleanup then [GetRefDocInfo (self_docstore self) ref_doc_id] else []))
       (map snd (vector_stores (self_storage_context self)))) @
     (if delete_from_docstore
      then [DocstoreDeleteRefDoc (self_docstore self) ref_doc_id False] else []) @
     [AddIndexStruct (index_store (self_storage_context self)) (self_index_struct self)]"

text \<open>
  \<open>agree m m'\<close>: the operation \<open>m\<close> over logged collaborators returns what \<open>m'\<close>
  returns over the collaborators themselves, and leaves their world as \<open>m'\<close> does.
\<close>

definition agree :: "('a, 'w \<times> log) op \<Rightarrow> ('a, 'w) op \<Rightarrow> bool" where
  "agree m m' \<longleftrightarrow> (\<forall>w l. case m (w, l) of (r, (w', l')) \<Rightarrow> m' w = (r, w'))"

text \<open>
  The collaborators with the three operations that insertion awaits in place of their
  synchronous twins.
\<close>

definition awaited :: "'w services \<Rightarrow> 'w services" where
  "awaited env =
     env\<lparr>embed_nodes := async_embed_nodes env,
         embed_image_nodes := async_embed_image_nodes env,
         vector_store_add := vector_store_async_add env\<rparr>"

text \<open>
  Where an error of insertion can come from: a collaborator call that raised it, a
  namespace missing from \<^verbatim>\<open>storage_context.vector_stores\<close>, or an embedding map that
  lacks the id of a node it was asked to embed. The error is \<open>e\<close>, the calls made are
  \<open>calls\<close>.
\<close>

definition error_source :: "multi_modal_index \<Rightarrow> error \<Rightarrow> log \<Rightarrow> bool" where
  "error_source self e calls \<longleftrightarrow>
     (\<exists>c. (c, Raises e) \<in> set calls) \<or>
     (e = KeyError DEFAULT_VECTOR_STORE \<and>
      map_of (vector_stores (self_storage_context self)) DEFAULT_VECTOR_STORE = None) \<or>
     (e = KeyError image_namespace \<and>
      map_of (vector_stores (self_storage_context self)) image_namespace = None) \<or>
     (\<exists>c m k. (c, ReturnsEmbeddings m) \<in> set calls \<and> k \<in> set (nodes_of_call c) \<and>
        m (node_id k) = None \<and> e = KeyError (node_id k))"

section \<open>Properties\<close>

subsection \<open>Reasoning about the calls a method makes\<close>

lemma effectD:
  assumes "effect m Q"
  shows "Q (result_of m w) (calls_of m w)"
proof -
  obtain r w' l' where m: "m (w, []) = (r, (w', l'))" by (metis prod.exhaust)
  from assms[unfolded effect_def, rule_format, where w=w and l="[]"] m
  show ?thesis by (simp add: result_of_def calls_of_def)
qed

lemma effect_weaken:
  assumes "effect m Q" and "\<And>r ext. Q r ext \<Longrightarrow> Q' r ext"
  shows "effect m Q'"
  unfolding effect_def
proof (intro allI)
  fix w l
  obtain r w' l' where m: "m (w, l) = (r, (w', l'))" by (metis prod.exhaust)
  from assms(1)[unfolded effect_def, rule_format, where w=w and l=l] m
  obtain ext where "l' = l @ ext" "Q r ext" by auto
  with assms(2) m show "case m (w, l) of (r, (w', l')) \<Rightarrow> \<exists>ext. l' = l @ ext \<and> Q' r ext"
    by auto
qed

lemma effect_return: "effect (return a) (\<lambda>r ext. r = Inr a \<and> ext = [])"
  by (simp add: effect_def return_def)

lemma effect_raise: "effect (raise e) (\<lambda>r ext. r = Inl e \<and> ext = [])"
  by (simp add: effect_def raise_def)

lemma effect_logged:
  "effect (logged c ret f) (\<lambda>r ext. ext = [(c, case r of Inl e \<Rightarrow> Raises e | Inr a \<Rightarrow> ret a)])"
  by (simp add: effect_def logged_def split: prod.splits)

lemma effect_seq:
  assumes "effect m Q1" and "\<And>a. effect (f a) (Q2 a)"
  shows "effect (seq m f) (\<lambda>r ext.
           (\<exists>e. r = Inl e \<and> Q1 (Inl e) ext) \<or>
           (\<exists>a ext1 ext2. ext = ext1 @ ext2 \<and> Q1 (Inr a) ext1 \<and> Q2 a r ext2))"
  unfolding effect_def
proof (intro allI)
  fix w l
  obtain r1 w1 l1 where m: "m (w, l) = (r1, (w1, l1))" by (metis prod.exhaust)
  from assms(1)[unfolded effect_def, rule_format, where w=w and l=l] m
  obtain ext1 where e1: "l1 = l @ ext1" "Q1 r1 ext1" by auto
  show "case seq m f (w, l) of (r, (w', l')) \<Rightarrow> \<exists>ext. l' = l @ ext \<and>
          ((\<exists>e. r = Inl e \<and> Q1 (Inl e) ext) \<or>
           (\<exists>a ext1 ext2. ext = ext1 @ ext2 \<and> Q1 (Inr a) ext1 \<and> Q2 a r ext2))"
  proof (cases r1)
    case (Inl e)
    then show ?thesis using m e1 by (simp add: seq_def)
  next
    case (Inr a)
    obtain r2 w2 l2 where f: "f a (w1, l1) = (r2, (w2, l2))" by (metis prod.exhaust)
    from assms(2)[of a, unfolded effect_def, rule_format, where w=w1 and l=l1] f
    obtain ext2 where e2: "l2 = l1 @ ext2" "Q2 a r2 ext2" by auto
    show ?thesis using Inr m f e1 e2 by (auto simp: seq_def)
  qed
qed

lemma effect_if:
  "(c \<Longrightarrow> effect m Q) \<Longrightarrow> (\<not> c \<Longrightarrow> effect n Q') \<Longrightarrow>
   effect (if c then m else n) (\<lambda>r ext. (c \<and> Q r ext) \<or> (\<not> c \<and> Q' r ext))"
  by (cases c) (auto elim: effect_weaken)

lemma effect_lookup_vector_store:
  "effect (lookup_vector_store ctx namespace)
     (\<lambda>r ext. ext = [] \<and>
        (case map_of (vector_stores ctx) namespace of
           None \<Rightarrow> r = Inl (KeyError namespace)
         | Some s \<Rightarrow> r = Inr s))"
  by (simp add: lookup_vector_store_def effect_def return_def raise_def split: option.splits)

lemma spy_simps:
  "embed_nodes (spy env) =
     (\<lambda>ns m p. logged (EmbedNodes ns m p) ReturnsEmbeddings (embed_nodes env ns m p))"
  "embed_image_nodes (spy env) =
     (\<lambda>ns m p. logged (EmbedImageNodes ns m p) ReturnsEmbeddings (embed_image_nodes env ns m p))"
  "async_embed_nodes (spy env) =
     (\<lambda>ns m p. logged (AsyncEmbedNodes ns m p) ReturnsEmbeddings (async_embed_nodes env ns m p))"
  "async_embed_image_nodes (spy env) =
     (\<lambda>ns m p. logged (AsyncEmbedImageNodes ns m p) ReturnsEmbeddings
        (async_embed_image_nodes env ns m p))"
  "stores_text (spy env) = stores_text env"
  "vector_store_add (spy env) =
     (\<lambda>s ns k. logged (VectorStoreAdd s ns k) ReturnsIds (vector_store_add env s ns k))"
  "vector_store_async_add (spy env) =
     (\<lambda>s ns k. logged (VectorStoreAsyncAdd s ns k) ReturnsIds (vector_store_async_add env s ns k))"
  "vector_store_delete (spy env) =
     (\<lambda>s i. logged (VectorStoreDelete s i) (\<lambda>_. Returns) (vector_store_delete env s i))"
  "add_node (spy env) = (\<lambda>x n i. logged (AddNode x n i) (\<lambda>_. Returns) (add_node env x n i))"
  "index_struct_delete (spy env) =
     (\<lambda>x i. logged (IndexStructDelete x i) (\<lambda>_. Returns) (index_struct_delete env x i))"
  "add_documents (spy env) =
     (\<lambda>d ns u. logged (AddDocuments d ns u) (\<lambda>_. Returns) (add_documents env d ns u))"
  "get_ref_doc_info (spy env) =
     (\<lambda>d i. logged (GetRefDocInfo d i) ReturnsRefDocInfo (get_ref_doc_info env d i))"
  "docstore_delete_ref_doc (spy env) =
     (\<lambda>d i r. logged (DocstoreDeleteRefDoc d i r) (\<lambda>_. Returns)
        (docstore_delete_ref_doc env d i r))"
  "add_index_struct (spy env) =
     (\<lambda>s x. logged (AddIndexStruct s x) (\<lambda>_. Returns) (add_index_struct env s x))"
  by (simp_all add: spy_def)

lemma mirrors_spy: "mirrors (spy env) self = mirrors env self"
  by (simp add: mirrors_def spy_simps)

lemma map_fst_pair_const: "map fst (map (\<lambda>c. (c, x)) cs) = cs"
  by (induction cs) auto

subsection \<open>The partition\<close>

lemma foldl_partition_step:
  "foldl partition_step (is, ts) nodes =
     (is @ filter image_bearing nodes, ts @ filter has_text nodes)"
  by (induction nodes arbitrary: "is" ts)
     (auto simp: partition_step_def image_bearing_def has_text_def)

lemma partition_nodes_filter:
  "partition_nodes nodes = (filter image_bearing nodes, filter has_text nodes)"
  by (simp add: partition_nodes_def foldl_partition_step)

lemma image_partition_filter: "image_partition nodes = filter image_bearing nodes"
  by (simp add: image_partition_def partition_nodes_filter)

lemma text_partition_filter: "text_partition nodes = filter has_text nodes"
  by (simp add: text_partition_def partition_nodes_filter)

subsection \<open>The steps of insertion\<close>

lemma attach_embeddings_Inr:
  "attach_embeddings m nodes = Inr results \<Longrightarrow> results = with_embeddings m nodes"
  by (induction nodes arbitrary: results)
     (auto simp: with_embeddings_def split: option.splits sum.splits)

lemma attach_embeddings_defined:
  "attach_embeddings m nodes = Inr results \<Longrightarrow> n \<in> set nodes \<Longrightarrow> m (node_id n) \<noteq> None"
  by (induction nodes arbitrary: results) (auto split: option.splits sum.splits)

lemma effect_get_nodes:
  "effect (get_nodes use_async (spy env) self nodes sp is_image)
     (\<lambda>r ext. \<exists>out. ext = [(embed_call use_async self nodes sp is_image, out)] \<and>
        (case r of
           Inr results \<Rightarrow>
             \<exists>m. out = ReturnsEmbeddings m \<and> results = with_embeddings m nodes \<and>
                 (\<forall>n\<in>set nodes. m (node_id n) \<noteq> None)
         | Inl e \<Rightarrow>
             out = Raises e \<or>
             (\<exists>m. out = ReturnsEmbeddings m \<and> attach_embeddings m nodes = Inl e)))"
  unfolding get_nodes_def get_node_with_embedding_def aget_node_with_embedding_def effect_def
  by (auto simp: spy_simps seq_def logged_def embed_call_def split: prod.splits sum.splits
      dest: attach_embeddings_Inr attach_embeddings_defined)

lemma effect_mirror_nodes:
  "effect (mirror_nodes (spy env) self ix pairs)
     (\<lambda>r ext. prefix (map fst ext) (mirror_calls self ix pairs) \<and>
        (r = Inr () \<longrightarrow> ext = map (\<lambda>c. (c, Returns)) (mirror_calls self ix pairs)))"
proof (induction pairs)
  case Nil
  show ?case by (simp add: effect_def return_def mirror_calls_def)
next
  case (Cons p pairs)
  obtain n i where p: "p = (n, i)" by (cases p)
  show ?case unfolding p mirror_nodes.simps Let_def
    apply (rule effect_weaken)
     apply (rule effect_seq)
      apply (simp only: spy_simps)
      apply (rule effect_logged)
     apply (rule effect_seq)
      apply (simp only: spy_simps)
      apply (rule effect_logged)
     apply (rule Cons.IH)
    apply (auto simp: mirror_calls_def split: sum.splits)
    done
qed

lemma insert_nodes_unfold:
  "nodes \<noteq> [] \<Longrightarrow>
   insert_nodes use_async env self ix nodes sp kw =
     seq (get_nodes use_async env self (text_partition nodes) sp False) (\<lambda>text_nodes.
     seq (lookup_vector_store (self_storage_context self) DEFAULT_VECTOR_STORE) (\<lambda>store.
     seq ((if use_async then vector_store_async_add else vector_store_add) env store text_nodes kw)
       (\<lambda>new_text_ids.
     seq (get_nodes use_async env self (image_partition nodes) sp True) (\<lambda>image_nodes.
     seq (lookup_vector_store (self_storage_context self) image_namespace) (\<lambda>image_store.
     seq ((if use_async then vector_store_async_add else vector_store_add) env image_store
            image_nodes kw) (\<lambda>new_img_ids.
       if mirrors env self
       then mirror_nodes env self ix (zip (text_nodes @ image_nodes) (new_text_ids @ new_img_ids))
       else return ()))))))"
  by (simp add: insert_nodes_def get_nodes_def add_nodes_to_index_def async_add_nodes_to_index_def
      split_def Let_def image_partition_def text_partition_def mirrors_def)

lemma effect_vector_store_add:
  "effect ((if use_async then vector_store_async_add else vector_store_add) (spy env) store nodes kw)
     (\<lambda>r ext. ext = [(add_call use_async store nodes kw,
                       case r of Inl e \<Rightarrow> Raises e | Inr ids \<Rightarrow> ReturnsIds ids)])"
  by (cases use_async) (simp_all add: spy_simps add_call_def effect_logged)

lemma effect_insert_nodes:
  assumes "nodes \<noteq> []"
  shows "effect (insert_nodes use_async (spy env) self ix nodes sp kw)
     (\<lambda>r ext. \<exists>store image_store temb tids iemb iids.
        prefix (map fst ext)
          (map fst (insert_log use_async (mirrors env self) self ix nodes sp kw
             store image_store temb tids iemb iids)) \<and>
        (r = Inr () \<longrightarrow>
           ext = insert_log use_async (mirrors env self) self ix nodes sp kw
                   store image_store temb tids iemb iids \<and>
           map_of (vector_stores (self_storage_context self)) DEFAULT_VECTOR_STORE = Some store \<and>
           map_of (vector_stores (self_storage_context self)) image_namespace = Some image_store \<and>
           (\<forall>n\<in>set (text_partition nodes). temb (node_id n) \<noteq> None) \<and>
           (\<forall>n\<in>set (image_partition nodes). iemb (node_id n) \<noteq> None)))"
  unfolding insert_nodes_unfold [OF assms] mirrors_spy
  apply (rule effect_weaken)
   apply (rule effect_seq)
    apply (rule effect_get_nodes)
   apply (rule effect_seq)
    apply (rule effect_lookup_vector_store)
   apply (rule effect_seq)
    apply (rule effect_vector_store_add)
   apply (rule effect_seq)
    apply (rule effect_get_nodes)
   apply (rule effect_seq)
    apply (rule effect_lookup_vector_store)
   apply (rule effect_seq)
    apply (rule effect_vector_store_add)
   apply (rule effect_if)
    apply (rule effect_mirror_nodes)
   apply (rule effect_return)
  apply (elim disjE exE conjE;
      clarsimp simp: insert_log_def Let_def map_fst_pair_const comp_def
        split: option.splits; blast?)
  done

lemma insert_nodes_empty:
  "insert_nodes use_async env self ix [] sp kw w = (Inr (), w)"
  by (simp add: insert_nodes_def add_nodes_to_index_def async_add_nodes_to_index_def return_def)

lemma calls_of_insert_empty:
  "calls_of (insert_nodes use_async env self ix [] sp kw) w = []"
  by (simp add: calls_of_def insert_nodes_empty)

lemma insert_nodes_run:
  assumes "nodes \<noteq> []"
  obtains store image_store temb tids iemb iids where
    "prefix (map fst (calls_of (insert_nodes use_async (spy env) self ix nodes sp kw) w))
       (map fst (insert_log use_async (mirrors env self) self ix nodes sp kw
          store image_store temb tids iemb iids))"
    "result_of (insert_nodes use_async (spy env) self ix nodes sp kw) w = Inr () \<Longrightarrow>
       calls_of (insert_nodes use_async (spy env) self ix nodes sp kw) w =
         insert_log use_async (mirrors env self) self ix nodes sp kw
           store image_store temb tids iemb iids \<and>
       map_of (vector_stores (self_storage_context self)) DEFAULT_VECTOR_STORE = Some store \<and>
       map_of (vector_stores (self_storage_context self)) image_namespace = Some image_store \<and>
       (\<forall>n\<in>set (text_partition nodes). temb (node_id n) \<noteq> None) \<and>
       (\<forall>n\<in>set (image_partition nodes). iemb (node_id n) \<noteq> None)"
  using effectD [OF effect_insert_nodes [OF assms], of use_async env self ix sp kw w] by blast

lemma call_in_prefix:
  "ev \<in> set l \<Longrightarrow> prefix (map fst l) cs \<Longrightarrow> fst ev \<in> set cs"
  by (metis image_eqI set_map set_mono_prefix subsetD)

lemma mirror_calls_cases:
  "c \<in> set (mirror_calls self ix pairs) \<Longrightarrow>
   \<exists>n i. (n, i) \<in> set pairs \<and>
     (c = AddNode ix (n\<lparr>embedding := None\<rparr>) i \<or>
      c = AddDocuments (self_docstore self) [n\<lparr>embedding := None\<rparr>] True)"
  by (auto simp: mirror_calls_def)

lemma insert_log_calls:
  "c \<in> set (map fst (insert_log use_async mirror self ix nodes sp kw store image_store temb tids iemb iids)) \<Longrightarrow>
   c = embed_call use_async self (text_partition nodes) sp False \<or>
   c = add_call use_async store (with_embeddings temb (text_partition nodes)) kw \<or>
   c = embed_call use_async self (image_partition nodes) sp True \<or>
   c = add_call use_async image_store (with_embeddings iemb (image_partition nodes)) kw \<or>
   (mirror \<and> c \<in> set (mirror_calls self ix
      (zip (with_embeddings temb (text_partition nodes) @ with_embeddings iemb (image_partition nodes))
           (tids @ iids))))"
  by (auto simp: insert_log_def Let_def map_fst_pair_const comp_def split: if_splits)

lemma mirrored_nodes_embed_call [simp]: "mirrored_nodes (embed_call use_async self ns sp is_image) = []"
  by (simp add: embed_call_def)

lemma mirrored_nodes_add_call [simp]: "mirrored_nodes (add_call use_async s ns kw) = []"
  by (simp add: add_call_def)

lemma nodes_of_embed_call [simp]: "nodes_of_call (embed_call use_async self ns sp is_image) = ns"
  by (simp add: embed_call_def)

lemma nodes_of_add_call [simp]: "nodes_of_call (add_call use_async s ns kw) = ns"
  by (simp add: add_call_def)

lemma with_embeddings_copy:
  "m \<in> set (with_embeddings e ns) \<Longrightarrow> \<exists>n \<in> set ns. copy_of m n"
  by (auto simp: with_embeddings_def copy_of_def)

lemma copy_of_refl: "copy_of n n"
  by (simp add: copy_of_def)

lemma copy_of_strip: "copy_of (m\<lparr>embedding := e\<rparr>) n = copy_of m n"
  by (simp add: copy_of_def)

lemma copy_of_trans: "copy_of a b \<Longrightarrow> copy_of b c \<Longrightarrow> copy_of a c"
  by (simp add: copy_of_def)

lemma copy_of_kept: "copy_of m n \<Longrightarrow> image_bearing m = image_bearing n \<and> has_text m = has_text n"
  by (simp add: copy_of_def image_bearing_def has_text_def)

text \<open>Every node that reaches a collaborator is a copy of a node of one of the partitions.\<close>

lemma nodes_reaching_collaborators:
  assumes ev: "ev \<in> set (calls_of (insert_nodes use_async (spy env) self ix nodes sp kw) w)"
    and m: "m \<in> set (nodes_of_call (fst ev))"
  shows "\<exists>n \<in> set (text_partition nodes) \<union> set (image_partition nodes). copy_of m n"
proof (cases "nodes = []")
  case True
  with ev show ?thesis by (simp add: calls_of_insert_empty)
next
  case False
  then obtain store image_store temb tids iemb iids where
    p: "prefix (map fst (calls_of (insert_nodes use_async (spy env) self ix nodes sp kw) w))
       (map fst (insert_log use_async (mirrors env self) self ix nodes sp kw
          store image_store temb tids iemb iids))"
    by (rule insert_nodes_run)
  from insert_log_calls [OF call_in_prefix [OF ev p]]
  consider "fst ev = embed_call use_async self (text_partition nodes) sp False"
    | "fst ev = add_call use_async store (with_embeddings temb (text_partition nodes)) kw"
    | "fst ev = embed_call use_async self (image_partition nodes) sp True"
    | "fst ev = add_call use_async image_store (with_embeddings iemb (image_partition nodes)) kw"
    | "fst ev \<in> set (mirror_calls self ix
      (zip (with_embeddings temb (text_partition nodes) @ with_embeddings iemb (image_partition nodes))
           (tids @ iids)))"
    by blast
  then show ?thesis
  proof cases
    case 1
    with m show ?thesis by (auto intro: copy_of_refl)
  next
    case 2
    with m show ?thesis by (auto dest: with_embeddings_copy)
  next
    case 3
    with m show ?thesis by (auto intro: copy_of_refl)
  next
    case 4
    with m show ?thesis by (auto dest: with_embeddings_copy)
  next
    case 5
    then obtain n i where ni: "(n, i) \<in> set (zip (with_embeddings temb (text_partition nodes) @
        with_embeddings iemb (image_partition nodes)) (tids @ iids))"
      and c: "fst ev = AddNode ix (n\<lparr>embedding := None\<rparr>) i \<or>
        fst ev = AddDocuments (self_docstore self) [n\<lparr>embedding := None\<rparr>] True"
      by (blast dest: mirror_calls_cases)
    from ni have "n \<in> set (with_embeddings temb (text_partition nodes)) \<union>
        set (with_embeddings iemb (image_partition nodes))"
      by (auto dest: set_zip_leftD)
    then obtain n' where n': "n' \<in> set (text_partition nodes) \<union> set (image_partition nodes)"
      "copy_of n n'"
      by (auto dest: with_embeddings_copy)
    from c m have "m = n\<lparr>embedding := None\<rparr>" by auto
    with n' show ?thesis by (auto simp: copy_of_strip)
  qed
qed

lemma with_embeddings_member:
  "m \<in> set ns \<Longrightarrow> e (node_id m) = Some v \<Longrightarrow> m\<lparr>embedding := Some v\<rparr> \<in> set (with_embeddings e ns)"
  by (force simp: with_embeddings_def)

lemma take_4_insert_log:
  "take 4 (insert_log use_async mirror self ix nodes sp kw store image_store temb tids iemb iids) =
     [(embed_call use_async self (text_partition nodes) sp False, ReturnsEmbeddings temb),
      (add_call use_async store (with_embeddings temb (text_partition nodes)) kw, ReturnsIds tids),
      (embed_call use_async self (image_partition nodes) sp True, ReturnsEmbeddings iemb),
      (add_call use_async image_store (with_embeddings iemb (image_partition nodes)) kw,
         ReturnsIds iids)]"
  by (simp add: insert_log_def Let_def)

lemma drop_4_insert_log:
  "drop 4 (insert_log use_async mirror self ix nodes sp kw store image_store temb tids iemb iids) =
     (if mirror
      then map (\<lambda>c. (c, Returns))
             (mirror_calls self ix
                (zip (with_embeddings temb (text_partition nodes) @
                      with_embeddings iemb (image_partition nodes)) (tids @ iids)))
      else [])"
  by (simp add: insert_log_def Let_def)

lemma nth_insert_log:
  "insert_log use_async mirror self ix nodes sp kw store image_store temb tids iemb iids ! 1 =
     (add_call use_async store (with_embeddings temb (text_partition nodes)) kw, ReturnsIds tids)"
  "insert_log use_async mirror self ix nodes sp kw store image_store temb tids iemb iids ! 3 =
     (add_call use_async image_store (with_embeddings iemb (image_partition nodes)) kw,
        ReturnsIds iids)"
  by (simp_all add: insert_log_def Let_def numeral_3_eq_3)

lemma nth_Suc_0_insert_log:
  "insert_log use_async mirror self ix nodes sp kw store image_store temb tids iemb iids ! Suc 0 =
     (add_call use_async store (with_embeddings temb (text_partition nodes)) kw, ReturnsIds tids)"
  by (simp add: insert_log_def Let_def)

lemma is_mirror_call_embed_call [simp]: "\<not> is_mirror_call (embed_call use_async self ns sp is_image)"
  by (simp add: embed_call_def)

lemma is_mirror_call_add_call [simp]: "\<not> is_mirror_call (add_call use_async s ns kw)"
  by (simp add: add_call_def)

lemma embed_call_eq_iff [simp]:
  "embed_call a s ns sp i = embed_call a s ns' sp' i' \<longleftrightarrow> i = i' \<and> ns = ns' \<and> sp = sp'"
  by (auto simp: embed_call_def)

lemma embed_call_neq_add_call [simp]:
  "embed_call a s ns sp i \<noteq> add_call a' st ns' kw"
  "add_call a' st ns' kw \<noteq> embed_call a s ns sp i"
  by (auto simp: embed_call_def add_call_def)

lemma embed_call_not_mirrored:
  "(embed_call a s ns sp i, out) \<in> set ext \<Longrightarrow> prefix (map fst ext) (mirror_calls self ix pairs)
   \<Longrightarrow> False"
  by (auto dest!: call_in_prefix mirror_calls_cases simp: embed_call_def split: if_splits)

lemma effect_insert_nodes_failure:
  assumes "nodes \<noteq> []"
  shows "effect (insert_nodes use_async (spy env) self ix nodes sp kw)
     (\<lambda>r ext.
        (\<forall>e. (embed_call use_async self (text_partition nodes) sp False, Raises e) \<in> set ext \<longrightarrow>
           r = Inl e \<and>
           ext = [(embed_call use_async self (text_partition nodes) sp False, Raises e)]) \<and>
        (\<forall>e. (embed_call use_async self (image_partition nodes) sp True, Raises e) \<in> set ext \<longrightarrow>
           r = Inl e \<and>
           (\<exists>store temb tids.
              map_of (vector_stores (self_storage_context self)) DEFAULT_VECTOR_STORE =
                Some store \<and>
              ext =
                [(embed_call use_async self (text_partition nodes) sp False,
                    ReturnsEmbeddings temb),
                 (add_call use_async store (with_embeddings temb (text_partition nodes)) kw,
                    ReturnsIds tids),
                 (embed_call use_async self (image_partition nodes) sp True, Raises e)])))"
  unfolding insert_nodes_unfold [OF assms] mirrors_spy
  apply (rule effect_weaken)
   apply (rule effect_seq)
    apply (rule effect_get_nodes)
   apply (rule effect_seq)
    apply (rule effect_lookup_vector_store)
   apply (rule effect_seq)
    apply (rule effect_vector_store_add)
   apply (rule effect_seq)
    apply (rule effect_get_nodes)
   apply (rule effect_seq)
    apply (rule effect_lookup_vector_store)
   apply (rule effect_seq)
    apply (rule effect_vector_store_add)
   apply (rule effect_if)
    apply (rule effect_mirror_nodes)
   apply (rule effect_return)
  apply (elim disjE exE conjE;
      clarsimp split: option.splits sum.splits; (auto dest: embed_call_not_mirrored)?)
  done

subsection \<open>The steps of deletion\<close>

lemma effect_delete_node_ids:
  "effect (delete_node_ids (spy env) self ids)
     (\<lambda>r ext. \<forall>e. r = Inl e \<longrightarrow> (\<exists>c. (c, Raises e) \<in> set ext))"
proof (induction ids)
  case Nil
  show ?case by (simp add: effect_def return_def)
next
  case (Cons i ids)
  show ?case unfolding delete_node_ids.simps spy_simps
    apply (rule effect_weaken)
     apply (rule effect_seq)
      apply (rule effect_logged)
     apply (rule effect_seq)
      apply (rule effect_logged)
     apply (rule Cons.IH)
    apply auto
    done
qed

lemma effect_cleanup:
  "effect (case info of None \<Rightarrow> return () | Some node_ids \<Rightarrow> delete_node_ids (spy env) self node_ids)
     (\<lambda>r ext. (info = None \<longrightarrow> r = Inr () \<and> ext = []) \<and>
        (\<forall>e. r = Inl e \<longrightarrow> (\<exists>c. (c, Raises e) \<in> set ext)))"
proof (cases info)
  case None
  then show ?thesis by (simp add: effect_def return_def)
next
  case (Some node_ids)
  then show ?thesis
    by (auto intro: effect_weaken [OF effect_delete_node_ids])
qed

lemma effect_delete_from_vector_stores:
  "effect (delete_from_vector_stores (spy env) self ref_doc_id stores)
     (\<lambda>r ext.
        (\<forall>e. r = Inl e \<longrightarrow> (\<exists>c. (c, Raises e) \<in> set ext)) \<and>
        ((\<forall>ev\<in>set ext. \<not> raised (snd ev) \<and> \<not> found (snd ev)) \<longrightarrow>
           map fst ext =
             concat (map (\<lambda>store.
               VectorStoreDelete store ref_doc_id #
               (if self_store_nodes_override self \<or> stores_text env (self_vector_store self)
                then [GetRefDocInfo (self_docstore self) ref_doc_id] else [])) stores)))"
proof (induction stores)
  case Nil
  show ?case by (simp add: effect_def return_def)
next
  case (Cons s stores)
  show ?case unfolding delete_from_vector_stores.simps spy_simps
    apply (rule effect_weaken)
     apply (rule effect_seq)
      apply (rule effect_logged)
     apply (rule effect_seq)
      apply (rule effect_if)
       apply (rule effect_seq)
        apply (rule effect_logged)
       apply (rule effect_cleanup)
      apply (rule effect_return)
     apply (rule Cons.IH)
    apply (elim disjE exE conjE; clarsimp split: option.splits sum.splits; (auto)?)
    done
qed

lemma effect_delete_ref_doc:
  "effect (delete_ref_doc (spy env) self ref_doc_id delete_from_docstore delete_kwargs)
     (\<lambda>r ext.
        (\<forall>e. r = Inl e \<longrightarrow> (\<exists>c. (c, Raises e) \<in> set ext)) \<and>
        ((\<forall>ev\<in>set ext. \<not> raised (snd ev) \<and> \<not> found (snd ev)) \<longrightarrow>
           map fst ext =
             delete_calls self
               (self_store_nodes_override self \<or> stores_text env (self_vector_store self))
               ref_doc_id delete_from_docstore))"
  unfolding delete_ref_doc_def spy_simps
  apply (rule effect_weaken)
   apply (rule effect_seq)
    apply (rule effect_delete_from_vector_stores)
   apply (rule effect_seq)
    apply (rule effect_if)
     apply (rule effect_logged)
    apply (rule effect_return)
   apply (rule effect_logged)
  apply (elim disjE exE conjE; clarsimp simp: delete_calls_def split: sum.splits; (force | auto)?)
  done

subsection \<open>Where the errors of insertion come from\<close>

lemma attach_embeddings_Inl:
  "attach_embeddings m nodes = Inl e \<Longrightarrow>
   \<exists>k \<in> set nodes. m (node_id k) = None \<and> e = KeyError (node_id k)"
  by (induction nodes) (auto split: option.splits sum.splits)

lemma effect_mirror_nodes_errors:
  "effect (mirror_nodes (spy env) self ix pairs)
     (\<lambda>r ext. \<forall>e. r = Inl e \<longrightarrow> (\<exists>c. (c, Raises e) \<in> set ext))"
proof (induction pairs)
  case Nil
  show ?case by (simp add: effect_def return_def)
next
  case (Cons p pairs)
  obtain n i where p: "p = (n, i)" by (cases p)
  show ?case unfolding p mirror_nodes.simps Let_def spy_simps
    apply (rule effect_weaken)
     apply (rule effect_seq)
      apply (rule effect_logged)
     apply (rule effect_seq)
      apply (rule effect_logged)
     apply (rule Cons.IH)
    apply auto
    done
qed

lemma effect_insert_nodes_errors:
  assumes "nodes \<noteq> []"
  shows "effect (insert_nodes use_async (spy env) self ix nodes sp kw)
     (\<lambda>r ext. \<forall>e. r = Inl e \<longrightarrow> error_source self e ext)"
  unfolding insert_nodes_unfold [OF assms] mirrors_spy
  apply (rule effect_weaken)
   apply (rule effect_seq)
    apply (rule effect_get_nodes)
   apply (rule effect_seq)
    apply (rule effect_lookup_vector_store)
   apply (rule effect_seq)
    apply (rule effect_vector_store_add)
   apply (rule effect_seq)
    apply (rule effect_get_nodes)
   apply (rule effect_seq)
    apply (rule effect_lookup_vector_store)
   apply (rule effect_seq)
    apply (rule effect_vector_store_add)
   apply (rule effect_if)
    apply (rule effect_mirror_nodes_errors)
   apply (rule effect_return)
  apply (elim disjE exE conjE;
      clarsimp simp: error_source_def split: option.splits sum.splits;
      (force dest!: attach_embeddings_Inl | auto dest!: attach_embeddings_Inl)?)
  done

lemma insert_nodes_error_source:
  "result_of (insert_nodes use_async (spy env) self ix nodes sp kw) w = Inl e \<Longrightarrow>
   error_source self e (calls_of (insert_nodes use_async (spy env) self ix nodes sp kw) w)"
proof (cases "nodes = []")
  case True
  assume "result_of (insert_nodes use_async (spy env) self ix nodes sp kw) w = Inl e"
  with True show ?thesis by (simp add: result_of_def insert_nodes_empty)
next
  case False
  assume r: "result_of (insert_nodes use_async (spy env) self ix nodes sp kw) w = Inl e"
  from effectD [OF effect_insert_nodes_errors [OF False, where use_async = use_async
        and env = env and self = self and ix = ix and sp = sp and kw = kw], where w = w] r
  show ?thesis by blast
qed

subsection \<open>Logging changes nothing; the awaited collaborators\<close>

lemma agreeD:
  assumes "agree m m'"
  shows "result_of m w = fst (m' w)" and "fst (snd (m (w, []))) = snd (m' w)"
proof -
  obtain r w' l' where m: "m (w, []) = (r, (w', l'))" by (metis prod.exhaust)
  from assms [unfolded agree_def, rule_format, where w=w and l="[]"] m
  show "result_of m w = fst (m' w)" and "fst (snd (m (w, []))) = snd (m' w)"
    by (simp_all add: result_of_def)
qed

lemma agree_pure: "agree (\<lambda>s. (x, s)) (\<lambda>w. (x, w))"
  by (simp add: agree_def)

lemma agree_return: "agree (return a) (return a)"
  by (simp add: agree_def return_def)

lemma agree_raise: "agree (raise e) (raise e)"
  by (simp add: agree_def raise_def)

lemma agree_logged: "agree (logged c ret f) f"
  by (simp add: agree_def logged_def split: prod.splits)

lemma agree_seq:
  assumes "agree m m'" and "\<And>a. agree (f a) (f' a)"
  shows "agree (seq m f) (seq m' f')"
  unfolding agree_def
proof (intro allI)
  fix w l
  obtain r1 w1 l1 where m: "m (w, l) = (r1, (w1, l1))" by (metis prod.exhaust)
  from assms(1) [unfolded agree_def, rule_format, where w=w and l=l] m
  have m': "m' w = (r1, w1)" by simp
  show "case seq m f (w, l) of (r, (w', l')) \<Rightarrow> seq m' f' w = (r, w')"
  proof (cases r1)
    case (Inl e)
    with m m' show ?thesis by (simp add: seq_def)
  next
    case (Inr a)
    obtain r2 w2 l2 where f: "f a (w1, l1) = (r2, (w2, l2))" by (metis prod.exhaust)
    from assms(2) [of a, unfolded agree_def, rule_format, where w=w1 and l=l1] f
    have "f' a w1 = (r2, w2)" by simp
    with Inr m m' f show ?thesis by (simp add: seq_def)
  qed
qed

lemma agree_if:
  "(c \<Longrightarrow> agree m m') \<Longrightarrow> (\<not> c \<Longrightarrow> agree n n') \<Longrightarrow>
   agree (if c then m else n) (if c then m' else n')"
  by simp

lemma agree_lookup_vector_store:
  "agree (lookup_vector_store ctx namespace) (lookup_vector_store ctx namespace)"
  by (simp add: lookup_vector_store_def agree_return agree_raise split: option.splits)

lemma agree_get_nodes:
  "agree (get_nodes use_async (spy env) self nodes sp is_image)
     (get_nodes use_async env self nodes sp is_image)"
  unfolding get_nodes_def get_node_with_embedding_def aget_node_with_embedding_def
  by (auto simp: spy_simps intro!: agree_seq agree_logged agree_pure)

lemma agree_vector_store_add:
  "agree ((if use_async then vector_store_async_add else vector_store_add) (spy env) store nodes kw)
     ((if use_async then vector_store_async_add else vector_store_add) env store nodes kw)"
  by (simp add: spy_simps agree_logged)

lemma agree_mirror_nodes:
  "agree (mirror_nodes (spy env) self ix pairs) (mirror_nodes env self ix pairs)"
proof (induction pairs)
  case Nil
  show ?case by (simp add: agree_return)
next
  case (Cons p pairs)
  obtain n i where p: "p = (n, i)" by (cases p)
  show ?case unfolding p mirror_nodes.simps Let_def spy_simps
    by (intro agree_seq agree_logged Cons.IH)
qed

lemma agree_insert_nodes:
  "agree (insert_nodes use_async (spy env) self ix nodes sp kw)
     (insert_nodes use_async env self ix nodes sp kw)"
proof (cases "nodes = []")
  case True
  then show ?thesis by (simp add: agree_def insert_nodes_empty)
next
  case False
  show ?thesis unfolding insert_nodes_unfold [OF False] mirrors_spy
    by (intro agree_seq agree_get_nodes agree_lookup_vector_store agree_vector_store_add
        agree_if agree_mirror_nodes agree_return)
qed

lemma agree_delete_node_ids:
  "agree (delete_node_ids (spy env) self ids) (delete_node_ids env self ids)"
proof (induction ids)
  case Nil
  show ?case by (simp add: agree_return)
next
  case (Cons i ids)
  show ?case unfolding delete_node_ids.simps spy_simps
    by (intro agree_seq agree_logged Cons.IH)
qed

lemma agree_cleanup:
  "agree (case info of None \<Rightarrow> return () | Some ids \<Rightarrow> delete_node_ids (spy env) self ids)
     (case info of None \<Rightarrow> return () | Some ids \<Rightarrow> delete_node_ids env self ids)"
  by (cases info) (simp_all add: agree_return agree_delete_node_ids)

lemma agree_delete_from_vector_stores:
  "agree (delete_from_vector_stores (spy env) self ref_doc_id stores)
     (delete_from_vector_stores env self ref_doc_id stores)"
proof (induction stores)
  case Nil
  show ?case by (simp add: agree_return)
next
  case (Cons s stores)
  show ?case unfolding delete_from_vector_stores.simps spy_simps
    by (intro agree_seq agree_logged agree_if agree_cleanup agree_return Cons.IH)
qed

lemma agree_delete_ref_doc:
  "agree (delete_ref_doc (spy env) self ref_doc_id delete_from_docstore delete_kwargs)
     (delete_ref_doc env self ref_doc_id delete_from_docstore delete_kwargs)"
  unfolding delete_ref_doc_def spy_simps
  by (intro agree_seq agree_logged agree_if agree_delete_from_vector_stores agree_return)

lemma mirror_nodes_awaited:
  "mirror_nodes (awaited env) self ix pairs = mirror_nodes env self ix pairs"
  by (induction pairs) (auto simp: awaited_def)

lemma awaited_simps:
  "embed_nodes (awaited env) = async_embed_nodes env"
  "embed_image_nodes (awaited env) = async_embed_image_nodes env"
  "vector_store_add (awaited env) = vector_store_async_add env"
  "stores_text (awaited env) = stores_text env"
  by (simp_all add: awaited_def)

subsection \<open>Insertion as a whole\<close>

lemma insert_nodes_progress:
  "result_of (insert_nodes use_async (spy env) self ix nodes sp kw) w = Inr () \<or>
   (\<exists>e. result_of (insert_nodes use_async (spy env) self ix nodes sp kw) w = Inl e \<and>
      error_source self e (calls_of (insert_nodes use_async (spy env) self ix nodes sp kw) w))"
  by (cases "result_of (insert_nodes use_async (spy env) self ix nodes sp kw) w")
     (auto dest: insert_nodes_error_source)

lemma mirror_calls_empty_iff: "mirror_calls self ix pairs = [] \<longleftrightarrow> pairs = []"
  by (cases pairs) (auto simp: mirror_calls_def)

lemma mirror_calls_are_mirror_calls: "c \<in> set (mirror_calls self ix pairs) \<Longrightarrow> is_mirror_call c"
  by (auto dest: mirror_calls_cases)

lemma insert_log_mirrored_iff:
  "(\<exists>ev \<in> set (insert_log use_async True self ix nodes sp kw store image_store temb tids iemb iids).
      is_mirror_call (fst ev)) \<longleftrightarrow>
   zip (with_embeddings temb (text_partition nodes) @ with_embeddings iemb (image_partition nodes))
     (tids @ iids) \<noteq> []"
proof -
  let ?pairs = "zip (with_embeddings temb (text_partition nodes) @
    with_embeddings iemb (image_partition nodes)) (tids @ iids)"
  have "(\<exists>ev \<in> set (insert_log use_async True self ix nodes sp kw store image_store temb tids
      iemb iids). is_mirror_call (fst ev)) \<longleftrightarrow> (\<exists>c \<in> set (mirror_calls self ix ?pairs). is_mirror_call c)"
    by (auto simp: insert_log_def Let_def)
  also have "\<dots> \<longleftrightarrow> mirror_calls self ix ?pairs \<noteq> []"
  proof
    assume "\<exists>c \<in> set (mirror_calls self ix ?pairs). is_mirror_call c"
    then show "mirror_calls self ix ?pairs \<noteq> []" by auto
  next
    assume "mirror_calls self ix ?pairs \<noteq> []"
    then obtain c where c: "c \<in> set (mirror_calls self ix ?pairs)"
      by (cases "mirror_calls self ix ?pairs") auto
    from mirror_calls_are_mirror_calls [OF c] c
    show "\<exists>c \<in> set (mirror_calls self ix ?pairs). is_mirror_call c" by blast
  qed
  finally show ?thesis by (simp add: mirror_calls_empty_iff)
qed

lemma partition_and_persist_core:
  "(n \<in> set (image_partition nodes) \<longleftrightarrow> n \<in> set nodes \<and> image_bearing n) \<and>
   (n \<in> set (text_partition nodes) \<longleftrightarrow> n \<in> set nodes \<and> has_text n) \<and>
   (nodes \<noteq> [] \<and> result_of (insert_nodes use_async (spy env) self ix nodes sp kw) w = Inr () \<longrightarrow>
      (\<exists>store image_store temb tids iemb iids.
         map_of (vector_stores (self_storage_context self)) DEFAULT_VECTOR_STORE = Some store \<and>
         map_of (vector_stores (self_storage_context self)) image_namespace = Some image_store \<and>
         take 4 (calls_of (insert_nodes use_async (spy env) self ix nodes sp kw) w) =
           [(embed_call use_async self (text_partition nodes) sp False, ReturnsEmbeddings temb),
            (add_call use_async store (with_embeddings temb (text_partition nodes)) kw,
               ReturnsIds tids),
            (embed_call use_async self (image_partition nodes) sp True, ReturnsEmbeddings iemb),
            (add_call use_async image_store (with_embeddings iemb (image_partition nodes)) kw,
               ReturnsIds iids)] \<and>
         (\<forall>m \<in> set nodes. image_bearing m \<and> has_text m \<longrightarrow>
            (\<exists>e. temb (node_id m) = Some e \<and>
               m\<lparr>embedding := Some e\<rparr> \<in> set (with_embeddings temb (text_partition nodes))) \<and>
            (\<exists>e. iemb (node_id m) = Some e \<and>
               m\<lparr>embedding := Some e\<rparr> \<in> set (with_embeddings iemb (image_partition nodes))))))"
proof (intro conjI impI)
  show "n \<in> set (image_partition nodes) \<longleftrightarrow> n \<in> set nodes \<and> image_bearing n"
    by (auto simp: image_partition_filter)
  show "n \<in> set (text_partition nodes) \<longleftrightarrow> n \<in> set nodes \<and> has_text n"
    by (auto simp: text_partition_filter)
next
  assume a: "nodes \<noteq> [] \<and>
    result_of (insert_nodes use_async (spy env) self ix nodes sp kw) w = Inr ()"
  then obtain store image_store temb tids iemb iids where
    run: "calls_of (insert_nodes use_async (spy env) self ix nodes sp kw) w =
         insert_log use_async (mirrors env self) self ix nodes sp kw
           store image_store temb tids iemb iids"
      "map_of (vector_stores (self_storage_context self)) DEFAULT_VECTOR_STORE = Some store"
      "map_of (vector_stores (self_storage_context self)) image_namespace = Some image_store"
      "\<forall>n\<in>set (text_partition nodes). temb (node_id n) \<noteq> None"
      "\<forall>n\<in>set (image_partition nodes). iemb (node_id n) \<noteq> None"
    using insert_nodes_run [of nodes use_async env self ix sp kw w] by metis
  have both: "\<forall>m \<in> set nodes. image_bearing m \<and> has_text m \<longrightarrow>
            (\<exists>e. temb (node_id m) = Some e \<and>
               m\<lparr>embedding := Some e\<rparr> \<in> set (with_embeddings temb (text_partition nodes))) \<and>
            (\<exists>e. iemb (node_id m) = Some e \<and>
               m\<lparr>embedding := Some e\<rparr> \<in> set (with_embeddings iemb (image_partition nodes)))"
  proof (intro ballI impI)
    fix m assume m: "m \<in> set nodes" "image_bearing m \<and> has_text m"
    then have mt: "m \<in> set (text_partition nodes)" and mi: "m \<in> set (image_partition nodes)"
      by (simp_all add: text_partition_filter image_partition_filter)
    from mt run(4) obtain e where e: "temb (node_id m) = Some e" by auto
    from mi run(5) obtain e' where e': "iemb (node_id m) = Some e'" by auto
    from with_embeddings_member [of m "text_partition nodes" temb e]
      with_embeddings_member [of m "image_partition nodes" iemb e'] mt mi e e'
    show "(\<exists>e. temb (node_id m) = Some e \<and>
               m\<lparr>embedding := Some e\<rparr> \<in> set (with_embeddings temb (text_partition nodes))) \<and>
            (\<exists>e. iemb (node_id m) = Some e \<and>
               m\<lparr>embedding := Some e\<rparr> \<in> set (with_embeddings iemb (image_partition nodes)))"
      by blast
  qed
  show "\<exists>store image_store temb tids iemb iids.
         map_of (vector_stores (self_storage_context self)) DEFAULT_VECTOR_STORE = Some store \<and>
         map_of (vector_stores (self_storage_context self)) image_namespace = Some image_store \<and>
         take 4 (calls_of (insert_nodes use_async (spy env) self ix nodes sp kw) w) =
           [(embed_call use_async self (text_partition nodes) sp False, ReturnsEmbeddings temb),
            (add_call use_async store (with_embeddings temb (text_partition nodes)) kw,
               ReturnsIds tids),
            (embed_call use_async self (image_partition nodes) sp True, ReturnsEmbeddings iemb),
            (add_call use_async image_store (with_embeddings iemb (image_partition nodes)) kw,
               ReturnsIds iids)] \<and>
         (\<forall>m \<in> set nodes. image_bearing m \<and> has_text m \<longrightarrow>
            (\<exists>e. temb (node_id m) = Some e \<and>
               m\<lparr>embedding := Some e\<rparr> \<in> set (with_embeddings temb (text_partition nodes))) \<and>
            (\<exists>e. iemb (node_id m) = Some e \<and>
               m\<lparr>embedding := Some e\<rparr> \<in> set (with_embeddings iemb (image_partition nodes))))"
    apply (rule exI [of _ store], rule exI [of _ image_store], rule exI [of _ temb],
        rule exI [of _ tids], rule exI [of _ iemb], rule exI [of _ iids])
    using run(2,3) both by (simp add: run(1) take_4_insert_log)
qed

lemma empty_plain_node_is_dropped_core:
  "\<not> image_bearing n \<and> \<not> has_text n \<longrightarrow>
     n \<notin> set (image_partition nodes) \<and> n \<notin> set (text_partition nodes) \<and>
     (\<forall>ev \<in> set (calls_of (insert_nodes use_async (spy env) self ix nodes sp kw) w).
        \<forall>m \<in> set (nodes_of_call (fst ev)). \<not> copy_of m n) \<and>
     (filter (\<lambda>m. m \<noteq> n) nodes \<noteq> [] \<longrightarrow>
        insert_nodes use_async env' self ix nodes sp kw w' =
        insert_nodes use_async env' self ix (filter (\<lambda>m. m \<noteq> n) nodes) sp kw w')"
proof (intro impI conjI ballI)
  assume d: "\<not> image_bearing n \<and> \<not> has_text n"
  then show "n \<notin> set (image_partition nodes)" "n \<notin> set (text_partition nodes)"
    by (simp_all add: image_partition_filter text_partition_filter)
  {
    fix ev m
    assume "ev \<in> set (calls_of (insert_nodes use_async (spy env) self ix nodes sp kw) w)"
      "m \<in> set (nodes_of_call (fst ev))"
    from nodes_reaching_collaborators [OF this]
    obtain k where k: "k \<in> set (text_partition nodes) \<union> set (image_partition nodes)" "copy_of m k"
      by blast
    from k(1) have "image_bearing k \<or> has_text k"
      by (auto simp: image_partition_filter text_partition_filter)
    with k(2) d show "\<not> copy_of m n"
      by (auto dest!: copy_of_kept)
  }
  {
    assume ne: "filter (\<lambda>m. m \<noteq> n) nodes \<noteq> []"
    then have ne': "nodes \<noteq> []" by auto
    from d have "filter image_bearing (filter (\<lambda>m. m \<noteq> n) nodes) = filter image_bearing nodes"
      "filter has_text (filter (\<lambda>m. m \<noteq> n) nodes) = filter has_text nodes"
      by (auto intro!: filter_cong)
    then have "image_partition (filter (\<lambda>m. m \<noteq> n) nodes) = image_partition nodes"
      "text_partition (filter (\<lambda>m. m \<noteq> n) nodes) = text_partition nodes"
      by (simp_all add: image_partition_filter text_partition_filter)
    then show "insert_nodes use_async env' self ix nodes sp kw w' =
        insert_nodes use_async env' self ix (filter (\<lambda>m. m \<noteq> n) nodes) sp kw w'"
      by (simp add: insert_nodes_unfold [OF ne] insert_nodes_unfold [OF ne'])
  }
qed

lemma only_empty_nodes_reach_nobody:
  assumes "\<forall>m \<in> set nodes. \<not> image_bearing m \<and> \<not> has_text m"
    and "ev \<in> set (calls_of (insert_nodes use_async (spy env) self ix nodes sp kw) w)"
  shows "nodes_of_call (fst ev) = []"
proof (rule ccontr)
  assume "nodes_of_call (fst ev) \<noteq> []"
  then obtain m where "m \<in> set (nodes_of_call (fst ev))" by (cases "nodes_of_call (fst ev)") auto
  from nodes_reaching_collaborators [OF assms(2) this]
  obtain k where "k \<in> set (text_partition nodes) \<union> set (image_partition nodes)" by blast
  with assms(1) show False
    by (auto simp: text_partition_filter image_partition_filter)
qed

subsection \<open>Sample runs\<close>

lemma sample_embedding_apply:
  "sample_embedding v ns i = map_of (map (\<lambda>n. (node_id n, v)) ns) i"
  by (simp add: sample_embedding_def)

lemmas sample_defs =
  insert_nodes_def add_nodes_to_index_def async_add_nodes_to_index_def
  partition_nodes_def partition_step_def
  get_node_with_embedding_def aget_node_with_embedding_def lookup_vector_store_def
  delete_ref_doc_def
  spy_def logged_def seq_def return_def raise_def calls_of_def result_of_def Let_def
  sample_index_def sample_services_def sample_context_def sample_embedding_apply
  DEFAULT_VECTOR_STORE_def image_namespace_def
  text_node_def image_node_def bare_image_node_def empty_node_def text_model_def clip_model_def

lemma sample_insert:
  "insert_nodes False (spy (sample_services (\<lambda>_. False) False None)) (sample_index False) 4
     [text_node, image_node, empty_node] False [] ((), []) =
   (Inr (), (),
    [(EmbedNodes [text_node, image_node] text_model False,
        ReturnsEmbeddings (sample_embedding [1] [text_node, image_node])),
     (VectorStoreAdd 0 [text_node\<lparr>embedding := Some [1]\<rparr>, image_node\<lparr>embedding := Some [1]\<rparr>] [],
        ReturnsIds [''a'', ''b'']),
     (EmbedImageNodes [image_node] clip_model False,
        ReturnsEmbeddings (sample_embedding [2] [image_node])),
     (VectorStoreAdd 1 [image_node\<lparr>embedding := Some [2]\<rparr>] [], ReturnsIds [''b'']),
     (AddNode 4 text_node ''a'', Returns),
     (AddDocuments 2 [text_node] True, Returns),
     (AddNode 4 image_node ''b'', Returns),
     (AddDocuments 2 [image_node] True, Returns),
     (AddNode 4 image_node ''b'', Returns),
     (AddDocuments 2 [image_node] True, Returns)])"
  by (simp add: sample_defs)

lemma sample_insert_async:
  "insert_nodes True (spy (sample_services (\<lambda>_. False) False None)) (sample_index False) 4
     [text_node, image_node, empty_node] False [] ((), []) =
   (Inr (), (),
    [(AsyncEmbedNodes [text_node, image_node] text_model False,
        ReturnsEmbeddings (sample_embedding [1] [text_node, image_node])),
     (VectorStoreAsyncAdd 0 [text_node\<lparr>embedding := Some [1]\<rparr>, image_node\<lparr>embedding := Some [1]\<rparr>] [],
        ReturnsIds [''a'', ''b'']),
     (AsyncEmbedImageNodes [image_node] clip_model False,
        ReturnsEmbeddings (sample_embedding [2] [image_node])),
     (VectorStoreAsyncAdd 1 [image_node\<lparr>embedding := Some [2]\<rparr>] [], ReturnsIds [''b'']),
     (AddNode 4 text_node ''a'', Returns),
     (AddDocuments 2 [text_node] True, Returns),
     (AddNode 4 image_node ''b'', Returns),
     (AddDocuments 2 [image_node] True, Returns),
     (AddNode 4 image_node ''b'', Returns),
     (AddDocuments 2 [image_node] True, Returns)])"
  by (simp add: sample_defs)

lemma sample_insert_keeps_text:
  "insert_nodes False (spy (sample_services (\<lambda>_. True) False None)) (sample_index False) 4
     [text_node, image_node, empty_node] False [] ((), []) =
   (Inr (), (),
    [(EmbedNodes [text_node, image_node] text_model False,
        ReturnsEmbeddings (sample_embedding [1] [text_node, image_node])),
     (VectorStoreAdd 0 [text_node\<lparr>embedding := Some [1]\<rparr>, image_node\<lparr>embedding := Some [1]\<rparr>] [],
        ReturnsIds [''a'', ''b'']),
     (EmbedImageNodes [image_node] clip_model False,
        ReturnsEmbeddings (sample_embedding [2] [image_node])),
     (VectorStoreAdd 1 [image_node\<lparr>embedding := Some [2]\<rparr>] [], ReturnsIds [''b''])])"
  by (simp add: sample_defs)

lemma sample_insert_image_fails:
  "insert_nodes False (spy (sample_services (\<lambda>_. False) True None)) (sample_index False) 4
     [text_node, image_node, empty_node] False [] ((), []) =
   (Inl (Raised ''image embedding failed''), (),
    [(EmbedNodes [text_node, image_node] text_model False,
        ReturnsEmbeddings (sample_embedding [1] [text_node, image_node])),
     (VectorStoreAdd 0 [text_node\<lparr>embedding := Some [1]\<rparr>, image_node\<lparr>embedding := Some [1]\<rparr>] [],
        ReturnsIds [''a'', ''b'']),
     (EmbedImageNodes [image_node] clip_model False, Raises (Raised ''image embedding failed''))])"
  by (simp add: sample_defs)

lemma sample_delete_unknown:
  "delete_ref_doc (spy (sample_services (\<lambda>_. True) False None)) (sample_index False)
     ''doc'' True [] ((), []) =
   (Inr (), (),
    [(VectorStoreDelete 0 ''doc'', Returns),
     (GetRefDocInfo 2 ''doc'', ReturnsRefDocInfo None),
     (VectorStoreDelete 1 ''doc'', Returns),
     (GetRefDocInfo 2 ''doc'', ReturnsRefDocInfo None),
     (DocstoreDeleteRefDoc 2 ''doc'' False, Returns),
     (AddIndexStruct 3 4, Returns)])"
  by (simp add: sample_defs)

lemma sample_delete_mirrored:
  "delete_ref_doc (spy (sample_services (\<lambda>_. False) False (Some [''n1'']))) (sample_index False)
     ''doc'' False [] ((), []) =
   (Inr (), (),
    [(VectorStoreDelete 0 ''doc'', Returns),
     (VectorStoreDelete 1 ''doc'', Returns),
     (AddIndexStruct 3 4, Returns)])"
  by (simp add: sample_defs)

lemma sample_delete_not_mirrored:
  "delete_ref_doc (spy (sample_services (\<lambda>_. True) False (Some [''n1'']))) (sample_index False)
     ''doc'' False [] ((), []) =
   (Inr (), (),
    [(VectorStoreDelete 0 ''doc'', Returns),
     (GetRefDocInfo 2 ''doc'', ReturnsRefDocInfo (Some [''n1''])),
     (IndexStructDelete 4 ''n1'', Returns),
     (VectorStoreDelete 0 ''n1'', Returns),
     (VectorStoreDelete 1 ''doc'', Returns),
     (GetRefDocInfo 2 ''doc'', ReturnsRefDocInfo (Some [''n1''])),
     (IndexStructDelete 4 ''n1'', Returns),
     (VectorStoreDelete 0 ''n1'', Returns),
     (AddIndexStruct 3 4, Returns)])"
  by (simp add: sample_defs)

lemma sample_insert_text_fails:
  "insert_nodes False
     (spy ((sample_services (\<lambda>_. False) False None)
        \<lparr>embed_nodes := \<lambda>ns m p. raise (Raised ''text embedding failed'')\<rparr>))
     (sample_index False) 4 [text_node, image_node, empty_node] False [] ((), []) =
   (Inl (Raised ''text embedding failed''), (),
    [(EmbedNodes [text_node, image_node] text_model False,
        Raises (Raised ''text embedding failed''))])"
  by (simp add: sample_defs)

lemma sample_insert_only_empty:
  "insert_nodes False (spy (sample_services (\<lambda>_. False) False None)) (sample_index False) 4
     [empty_node] False [] ((), []) =
   (Inr (), (),
    [(EmbedNodes [] text_model False, ReturnsEmbeddings (sample_embedding [1] [])),
     (VectorStoreAdd 0 [] [], ReturnsIds []),
     (EmbedImageNodes [] clip_model False, ReturnsEmbeddings (sample_embedding [2] [])),
     (VectorStoreAdd 1 [] [], ReturnsIds [])])"
  by (simp add: sample_defs)

lemma sample_insert_only_empty_async:
  "insert_nodes True (spy (sample_services (\<lambda>_. False) False None)) (sample_index False) 4
     [empty_node] False [] ((), []) =
   (Inr (), (),
    [(AsyncEmbedNodes [] text_model False, ReturnsEmbeddings (sample_embedding [1] [])),
     (VectorStoreAsyncAdd 0 [] [], ReturnsIds []),
     (AsyncEmbedImageNodes [] clip_model False, ReturnsEmbeddings (sample_embedding [2] [])),
     (VectorStoreAsyncAdd 1 [] [], ReturnsIds [])])"
  by (simp add: sample_defs)

section \<open>The claims\<close>

subsection \<open>Construction\<close>

text \<open>
  Claim C5. Constructing the index with an embedding model that is not multi-modal fails
  at once with the error of the assertion, before any storage context, vector store or
  base-class constructor is used: the world left behind is the one the resolution of the
  model left. And \<^verbatim>\<open>from_vector_store\<close> fails at once with \<^verbatim>\<open>ValueError\<close>, the
  world untouched, when the given vector store does not store text.
\<close>

theorem construction_rejects_bad_configuration:
  "(resolve_embed_model fac image_embed_model w = (Inr m, w1) \<and> \<not> multi_modal m \<longrightarrow>
      init fac nodes index_struct service_context storage_context use_async
        store_nodes_override show_progress image_vector_store image_embed_model kwargs w =
      (Inl AssertionError, w1)) \<and>
   (\<not> stores_text env vector_store \<longrightarrow>
      from_vector_store env fac vector_store service_context image_vector_store image_embed_model
        index_struct use_async store_nodes_override show_progress kwargs w =
      (Inl (ValueError ''Cannot initialize from a vector store that does not store text.''), w))"
  by (simp add: init_def from_vector_store_def seq_def raise_def)

theorem construction_rejects_bad_configuration_witness:
  "init sample_factories None None None None False False False None (ModelName ''text-only'') [] () =
     (Inl AssertionError, ()) \<and>
   from_vector_store (sample_services (\<lambda>_. False) False None) sample_factories 0 None None
     (ModelName ''text-only'') None False False False [] () =
     (Inl (ValueError ''Cannot initialize from a vector store that does not store text.''), ())"
proof -
  have r: "resolve_embed_model sample_factories (ModelName ''text-only'') () =
             (Inr \<lparr>model_name = ''text-only'', multi_modal = False\<rparr>, ())"
    by (simp add: sample_factories_def return_def)
  have s: "\<not> stores_text (sample_services (\<lambda>_. False) False None) 0"
    by (simp add: sample_services_def)
  show ?thesis
    using construction_rejects_bad_configuration [where fac = sample_factories
        and image_embed_model = "ModelName ''text-only''" and w = "()"
        and m = "\<lparr>model_name = ''text-only'', multi_modal = False\<rparr>" and ?w1.0 = "()"
        and env = "sample_services (\<lambda>_. False) False None" and vector_store = 0] r s
    by simp
qed

subsection \<open>Insertion\<close>

text \<open>
  Claim C9. Inserting an empty sequence of nodes returns at once, through either entry
  point: the result is normal, the world of the collaborators is unchanged, and no
  collaborator (in particular no embedding function) is called.
\<close>

theorem insert_empty_is_noop:
  "add_nodes_to_index env self index_struct [] show_progress insert_kwargs w = (Inr (), w) \<and>
   async_add_nodes_to_index env self index_struct [] show_progress insert_kwargs w = (Inr (), w) \<and>
   calls_of (add_nodes_to_index (spy env) self index_struct [] show_progress insert_kwargs) w = [] \<and>
   calls_of (async_add_nodes_to_index (spy env) self index_struct [] show_progress insert_kwargs) w = []"
  by (simp add: add_nodes_to_index_def async_add_nodes_to_index_def return_def calls_of_def)

theorem insert_empty_is_noop_witness:
  "add_nodes_to_index (sample_services (\<lambda>_. False) False None) (sample_index False) 4 []
     False [] () = (Inr (), ()) \<and>
   async_add_nodes_to_index (sample_services (\<lambda>_. False) False None) (sample_index False) 4 []
     False [] () = (Inr (), ()) \<and>
   calls_of (add_nodes_to_index (spy (sample_services (\<lambda>_. False) False None))
     (sample_index False) 4 [] False []) () = [] \<and>
   calls_of (async_add_nodes_to_index (spy (sample_services (\<lambda>_. False) False None))
     (sample_index False) 4 [] False []) () = []"
  using insert_empty_is_noop [of "sample_services (\<lambda>_. False) False None" "sample_index False"
      4 False "[]" "()"]
  by simp

text \<open>
  Claim C2. The partition step puts a node in the image partition exactly when it is an
  image node, and in the text partition exactly when its text is not empty. For a
  non-empty batch whose insertion ends normally, through either entry point, the first
  four calls are: the text embedder on the text partition, \<^verbatim>\<open>add\<close> on the store
  registered as \<^verbatim>\<open>default\<close> with the text partition carrying the returned
  embeddings, the image embedder on the image partition, and \<^verbatim>\<open>add\<close> on the store
  registered as \<^verbatim>\<open>image\<close> with the image partition carrying the returned embeddings.
  So an image node with text is added to both stores, once with its text embedding and
  once with its image embedding. And insertion does end normally unless a collaborator
  call raised, a namespace is not registered, or an embedder returned a map without the
  id of a node it was given.
\<close>

theorem partition_and_persist:
  "(n \<in> set (image_partition nodes) \<longleftrightarrow> n \<in> set nodes \<and> image_bearing n) \<and>
   (n \<in> set (text_partition nodes) \<longleftrightarrow> n \<in> set nodes \<and> has_text n) \<and>
   (nodes \<noteq> [] \<and> result_of (insert_nodes use_async (spy env) self ix nodes sp kw) w = Inr () \<longrightarrow>
      (\<exists>store image_store temb tids iemb iids.
         map_of (vector_stores (self_storage_context self)) DEFAULT_VECTOR_STORE = Some store \<and>
         map_of (vector_stores (self_storage_context self)) image_namespace = Some image_store \<and>
         take 4 (calls_of (insert_nodes use_async (spy env) self ix nodes sp kw) w) =
           [(embed_call use_async self (text_partition nodes) sp False, ReturnsEmbeddings temb),
            (add_call use_async store (with_embeddings temb (text_partition nodes)) kw,
               ReturnsIds tids),
            (embed_call use_async self (image_partition nodes) sp True, ReturnsEmbeddings iemb),
            (add_call use_async image_store (with_embeddings iemb (image_partition nodes)) kw,
               ReturnsIds iids)] \<and>
         (\<forall>m \<in> set nodes. image_bearing m \<and> has_text m \<longrightarrow>
            (\<exists>e. temb (node_id m) = Some e \<and>
               m\<lparr>embedding := Some e\<rparr> \<in> set (with_embeddings temb (text_partition nodes))) \<and>
            (\<exists>e. iemb (node_id m) = Some e \<and>
               m\<lparr>embedding := Some e\<rparr> \<in> set (with_embeddings iemb (image_partition nodes)))))) \<and>
   (result_of (insert_nodes use_async (spy env) self ix nodes sp kw) w = Inr () \<or>
    (\<exists>e. result_of (insert_nodes use_async (spy env) self ix nodes sp kw) w = Inl e \<and>
       error_source self e (calls_of (insert_nodes use_async (spy env) self ix nodes sp kw) w)))"
  apply (insert partition_and_persist_core [where n = n and nodes = nodes
        and use_async = use_async and env = env and self = self and ix = ix and sp = sp
        and kw = kw and w = w]
      insert_nodes_progress [where use_async = use_async and env = env and self = self
        and ix = ix and nodes = nodes and sp = sp and kw = kw and w = w])
  apply (elim conjE)
  apply (intro conjI)
     apply assumption+
  done

theorem partition_and_persist_witness:
  "image_node \<in> set (image_partition [text_node, image_node, empty_node]) \<and>
   image_node \<in> set (text_partition [text_node, image_node, empty_node]) \<and>
   image_bearing image_node \<and> has_text image_node \<and>
   result_of (insert_nodes False (spy (sample_services (\<lambda>_. False) False None))
     (sample_index False) 4 [text_node, image_node, empty_node] False []) () = Inr () \<and>
   take 4 (calls_of (insert_nodes False (spy (sample_services (\<lambda>_. False) False None))
     (sample_index False) 4 [text_node, image_node, empty_node] False []) ()) =
     [(EmbedNodes [text_node, image_node] text_model False,
         ReturnsEmbeddings (sample_embedding [1] [text_node, image_node])),
      (VectorStoreAdd 0
         [text_node\<lparr>embedding := Some [1]\<rparr>, image_node\<lparr>embedding := Some [1]\<rparr>] [],
         ReturnsIds [''a'', ''b'']),
      (EmbedImageNodes [image_node] clip_model False,
         ReturnsEmbeddings (sample_embedding [2] [image_node])),
      (VectorStoreAdd 1 [image_node\<lparr>embedding := Some [2]\<rparr>] [], ReturnsIds [''b''])] \<and>
   result_of (insert_nodes True (spy (sample_services (\<lambda>_. False) False None))
     (sample_index False) 4 [text_node, image_node, empty_node] False []) () = Inr () \<and>
   take 4 (calls_of (insert_nodes True (spy (sample_services (\<lambda>_. False) False None))
     (sample_index False) 4 [text_node, image_node, empty_node] False []) ()) =
     [(AsyncEmbedNodes [text_node, image_node] text_model False,
         ReturnsEmbeddings (sample_embedding [1] [text_node, image_node])),
      (VectorStoreAsyncAdd 0
         [text_node\<lparr>embedding := Some [1]\<rparr>, image_node\<lparr>embedding := Some [1]\<rparr>] [],
         ReturnsIds [''a'', ''b'']),
      (AsyncEmbedImageNodes [image_node] clip_model False,
         ReturnsEmbeddings (sample_embedding [2] [image_node])),
      (VectorStoreAsyncAdd 1 [image_node\<lparr>embedding := Some [2]\<rparr>] [], ReturnsIds [''b''])]"
proof -
  let ?nodes = "[text_node, image_node, empty_node]"
  let ?env = "sample_services (\<lambda>_. False) False None"
  have p: "image_node \<in> set ?nodes \<and> image_bearing image_node"
    "image_node \<in> set ?nodes \<and> has_text image_node"
    by (simp_all add: image_bearing_def has_text_def image_node_def)
  have r: "?nodes \<noteq> [] \<and>
    result_of (insert_nodes False (spy ?env) (sample_index False) 4 ?nodes False []) () = Inr ()"
    by (simp add: result_of_def sample_insert)
  have ra: "?nodes \<noteq> [] \<and>
    result_of (insert_nodes True (spy ?env) (sample_index False) 4 ?nodes False []) () = Inr ()"
    by (simp add: result_of_def sample_insert_async)
  from partition_and_persist [where n = image_node and nodes = ?nodes and use_async = False
      and env = ?env and self = "sample_index False"
      and ix = 4 and sp = False and kw = "[]" and w = "()"] p r
  have s: "image_node \<in> set (image_partition ?nodes)" "image_node \<in> set (text_partition ?nodes)"
    "\<exists>store image_store temb tids iemb iids.
       map_of (vector_stores (self_storage_context (sample_index False))) DEFAULT_VECTOR_STORE =
         Some store \<and>
       map_of (vector_stores (self_storage_context (sample_index False))) image_namespace =
         Some image_store \<and>
       take 4 (calls_of (insert_nodes False (spy ?env) (sample_index False) 4 ?nodes False [])
         ()) =
         [(embed_call False (sample_index False) (text_partition ?nodes) False False,
             ReturnsEmbeddings temb),
          (add_call False store (with_embeddings temb (text_partition ?nodes)) [],
             ReturnsIds tids),
          (embed_call False (sample_index False) (image_partition ?nodes) False True,
             ReturnsEmbeddings iemb),
          (add_call False image_store (with_embeddings iemb (image_partition ?nodes)) [],
             ReturnsIds iids)]"
    by blast+
  from partition_and_persist [where n = image_node and nodes = ?nodes and use_async = True
      and env = ?env and self = "sample_index False"
      and ix = 4 and sp = False and kw = "[]" and w = "()"] ra
  have a: "\<exists>store image_store temb tids iemb iids.
       map_of (vector_stores (self_storage_context (sample_index False))) DEFAULT_VECTOR_STORE =
         Some store \<and>
       map_of (vector_stores (self_storage_context (sample_index False))) image_namespace =
         Some image_store \<and>
       take 4 (calls_of (insert_nodes True (spy ?env) (sample_index False) 4 ?nodes False [])
         ()) =
         [(embed_call True (sample_index False) (text_partition ?nodes) False False,
             ReturnsEmbeddings temb),
          (add_call True store (with_embeddings temb (text_partition ?nodes)) [],
             ReturnsIds tids),
          (embed_call True (sample_index False) (image_partition ?nodes) False True,
             ReturnsEmbeddings iemb),
          (add_call True image_store (with_embeddings iemb (image_partition ?nodes)) [],
             ReturnsIds iids)]"
    by blast
  have k: "take 4 (calls_of (insert_nodes False (spy ?env) (sample_index False) 4 ?nodes
      False []) ()) =
     [(EmbedNodes [text_node, image_node] text_model False,
         ReturnsEmbeddings (sample_embedding [1] [text_node, image_node])),
      (VectorStoreAdd 0
         [text_node\<lparr>embedding := Some [1]\<rparr>, image_node\<lparr>embedding := Some [1]\<rparr>] [],
         ReturnsIds [''a'', ''b'']),
      (EmbedImageNodes [image_node] clip_model False,
         ReturnsEmbeddings (sample_embedding [2] [image_node])),
      (VectorStoreAdd 1 [image_node\<lparr>embedding := Some [2]\<rparr>] [], ReturnsIds [''b''])]"
    by (simp add: calls_of_def sample_insert)
  have ka: "take 4 (calls_of (insert_nodes True (spy ?env) (sample_index False) 4 ?nodes
      False []) ()) =
     [(AsyncEmbedNodes [text_node, image_node] text_model False,
         ReturnsEmbeddings (sample_embedding [1] [text_node, image_node])),
      (VectorStoreAsyncAdd 0
         [text_node\<lparr>embedding := Some [1]\<rparr>, image_node\<lparr>embedding := Some [1]\<rparr>] [],
         ReturnsIds [''a'', ''b'']),
      (AsyncEmbedImageNodes [image_node] clip_model False,
         ReturnsEmbeddings (sample_embedding [2] [image_node])),
      (VectorStoreAsyncAdd 1 [image_node\<lparr>embedding := Some [2]\<rparr>] [], ReturnsIds [''b''])]"
    by (simp add: calls_of_def sample_insert_async)
  from p r ra s(1,2) s(3) a show ?thesis
    unfolding k ka by blast
qed

text \<open>
  Claim C3, as stated, fails on the code in the direction from the condition to the
  mutation: with a primary store that does not store text, the synchronous insertion of
  a batch whose only node is no image node and has empty text ends normally, and neither
  \<^verbatim>\<open>add_node\<close> nor \<^verbatim>\<open>add_documents\<close> is called, because the mirroring loop runs
  over the pairs of \<^verbatim>\<open>zip(all_nodes, all_new_ids)\<close> and there is none.
\<close>

theorem mirroring_without_pairs_changes_nothing:
  "mirrors (sample_services (\<lambda>_. False) False None) (sample_index False) \<and>
   result_of (add_nodes_to_index (spy (sample_services (\<lambda>_. False) False None))
     (sample_index False) 4 [empty_node] False []) () = Inr () \<and>
   calls_of (add_nodes_to_index (spy (sample_services (\<lambda>_. False) False None))
     (sample_index False) 4 [empty_node] False []) () =
     [(EmbedNodes [] text_model False, ReturnsEmbeddings (sample_embedding [1] [])),
      (VectorStoreAdd 0 [] [], ReturnsIds []),
      (EmbedImageNodes [] clip_model False, ReturnsEmbeddings (sample_embedding [2] [])),
      (VectorStoreAdd 1 [] [], ReturnsIds [])] \<and>
   filter (is_mirror_call \<circ> fst)
     (calls_of (add_nodes_to_index (spy (sample_services (\<lambda>_. False) False None))
        (sample_index False) 4 [empty_node] False []) ()) = []"
proof -
  have m: "mirrors (sample_services (\<lambda>_. False) False None) (sample_index False)"
    by (simp add: mirrors_def sample_services_def sample_index_def)
  have r: "add_nodes_to_index (spy (sample_services (\<lambda>_. False) False None))
     (sample_index False) 4 [empty_node] False [] ((), []) =
   (Inr (), (),
    [(EmbedNodes [] text_model False, ReturnsEmbeddings (sample_embedding [1] [])),
     (VectorStoreAdd 0 [] [], ReturnsIds []),
     (EmbedImageNodes [] clip_model False, ReturnsEmbeddings (sample_embedding [2] [])),
     (VectorStoreAdd 1 [] [], ReturnsIds [])])"
    using sample_insert_only_empty by (simp add: insert_nodes_def)
  from m show ?thesis
    by (simp add: result_of_def calls_of_def r)
qed

text \<open>
  Claim C3, amended. When the primary vector store stores text and the override is off,
  no run of insertion calls \<^verbatim>\<open>add_node\<close> or \<^verbatim>\<open>add_documents\<close>. Otherwise, in a run
  on a non-empty batch that ends normally, through either entry point, the calls after
  the first four are exactly, for each pair of
  \<^verbatim>\<open>zip(text_nodes + image_nodes, new_text_ids + new_img_ids)\<close> in order, \<^verbatim>\<open>add_node\<close>
  of the copy without embedding under the paired id and \<^verbatim>\<open>add_documents\<close> of that copy
  with \<^verbatim>\<open>allow_update=True\<close>; so the index structure and the document store are
  changed exactly when there is such a pair; and when the primary store returned one id
  per text node, these pairs are each text node with the id the primary store returned
  for it followed by each image node with the id the image store returned for it. And
  insertion does end normally unless a collaborator call raised, a namespace is not
  registered, or an embedder returned a map without the id of a node it was given.
\<close>

theorem mirroring_condition_and_pairs:
  "(\<not> mirrors env self \<longrightarrow>
      (\<forall>ev \<in> set (calls_of (insert_nodes use_async (spy env) self ix nodes sp kw) w).
         \<not> is_mirror_call (fst ev))) \<and>
   (mirrors env self \<and> nodes \<noteq> [] \<and>
    result_of (insert_nodes use_async (spy env) self ix nodes sp kw) w = Inr () \<longrightarrow>
      (\<exists>store image_store text_nodes tids image_nodes iids.
         calls_of (insert_nodes use_async (spy env) self ix nodes sp kw) w ! 1 =
           (add_call use_async store text_nodes kw, ReturnsIds tids) \<and>
         calls_of (insert_nodes use_async (spy env) self ix nodes sp kw) w ! 3 =
           (add_call use_async image_store image_nodes kw, ReturnsIds iids) \<and>
         drop 4 (calls_of (insert_nodes use_async (spy env) self ix nodes sp kw) w) =
           map (\<lambda>c. (c, Returns))
             (mirror_calls self ix (zip (text_nodes @ image_nodes) (tids @ iids))) \<and>
         ((\<exists>ev \<in> set (calls_of (insert_nodes use_async (spy env) self ix nodes sp kw) w).
             is_mirror_call (fst ev)) \<longleftrightarrow>
          zip (text_nodes @ image_nodes) (tids @ iids) \<noteq> []) \<and>
         (length tids = length text_nodes \<longrightarrow>
            drop 4 (calls_of (insert_nodes use_async (spy env) self ix nodes sp kw) w) =
              map (\<lambda>c. (c, Returns))
                (mirror_calls self ix (zip text_nodes tids @ zip image_nodes iids))))) \<and>
   (result_of (insert_nodes use_async (spy env) self ix nodes sp kw) w = Inr () \<or>
    (\<exists>e. result_of (insert_nodes use_async (spy env) self ix nodes sp kw) w = Inl e \<and>
       error_source self e (calls_of (insert_nodes use_async (spy env) self ix nodes sp kw) w)))"
proof (intro conjI impI ballI)
  fix ev
  assume nm: "\<not> mirrors env self"
    and ev: "ev \<in> set (calls_of (insert_nodes use_async (spy env) self ix nodes sp kw) w)"
  show "\<not> is_mirror_call (fst ev)"
  proof (cases "nodes = []")
    case True
    with ev show ?thesis by (simp add: calls_of_insert_empty)
  next
    case False
    then obtain store image_store temb tids iemb iids where
      p: "prefix (map fst (calls_of (insert_nodes use_async (spy env) self ix nodes sp kw) w))
         (map fst (insert_log use_async (mirrors env self) self ix nodes sp kw
            store image_store temb tids iemb iids))"
      by (rule insert_nodes_run)
    from insert_log_calls [OF call_in_prefix [OF ev p]] nm
    show ?thesis by auto
  qed
next
  assume a: "mirrors env self \<and> nodes \<noteq> [] \<and>
    result_of (insert_nodes use_async (spy env) self ix nodes sp kw) w = Inr ()"
  then obtain store image_store temb tids iemb iids where
    run: "calls_of (insert_nodes use_async (spy env) self ix nodes sp kw) w =
         insert_log use_async (mirrors env self) self ix nodes sp kw
           store image_store temb tids iemb iids"
    using insert_nodes_run [of nodes use_async env self ix sp kw w] by metis
  show "\<exists>store image_store text_nodes tids image_nodes iids.
         calls_of (insert_nodes use_async (spy env) self ix nodes sp kw) w ! 1 =
           (add_call use_async store text_nodes kw, ReturnsIds tids) \<and>
         calls_of (insert_nodes use_async (spy env) self ix nodes sp kw) w ! 3 =
           (add_call use_async image_store image_nodes kw, ReturnsIds iids) \<and>
         drop 4 (calls_of (insert_nodes use_async (spy env) self ix nodes sp kw) w) =
           map (\<lambda>c. (c, Returns))
             (mirror_calls self ix (zip (text_nodes @ image_nodes) (tids @ iids))) \<and>
         ((\<exists>ev \<in> set (calls_of (insert_nodes use_async (spy env) self ix nodes sp kw) w).
             is_mirror_call (fst ev)) \<longleftrightarrow>
          zip (text_nodes @ image_nodes) (tids @ iids) \<noteq> []) \<and>
         (length tids = length text_nodes \<longrightarrow>
            drop 4 (calls_of (insert_nodes use_async (spy env) self ix nodes sp kw) w) =
              map (\<lambda>c. (c, Returns))
                (mirror_calls self ix (zip text_nodes tids @ zip image_nodes iids)))"
    apply (rule exI [of _ store], rule exI [of _ image_store],
        rule exI [of _ "with_embeddings temb (text_partition nodes)"], rule exI [of _ tids],
        rule exI [of _ "with_embeddings iemb (image_partition nodes)"], rule exI [of _ iids])
    using a by (simp add: run nth_insert_log nth_Suc_0_insert_log drop_4_insert_log zip_append
        insert_log_mirrored_iff)
next
  show "result_of (insert_nodes use_async (spy env) self ix nodes sp kw) w = Inr () \<or>
    (\<exists>e. result_of (insert_nodes use_async (spy env) self ix nodes sp kw) w = Inl e \<and>
       error_source self e (calls_of (insert_nodes use_async (spy env) self ix nodes sp kw) w))"
    by (rule insert_nodes_progress)
qed

theorem mirroring_condition_and_pairs_witness:
  "\<not> mirrors (sample_services (\<lambda>_. True) False None) (sample_index False) \<and>
   map (is_mirror_call \<circ> fst)
     (calls_of (insert_nodes False (spy (sample_services (\<lambda>_. True) False None))
        (sample_index False) 4 [text_node, image_node, empty_node] False []) ()) =
     [False, False, False, False] \<and>
   mirrors (sample_services (\<lambda>_. False) False None) (sample_index False) \<and>
   result_of (insert_nodes False (spy (sample_services (\<lambda>_. False) False None))
     (sample_index False) 4 [text_node, image_node, empty_node] False []) () = Inr () \<and>
   drop 4 (calls_of (insert_nodes False (spy (sample_services (\<lambda>_. False) False None))
     (sample_index False) 4 [text_node, image_node, empty_node] False []) ()) =
     map (\<lambda>c. (c, Returns))
       (mirror_calls (sample_index False) 4
          (zip [text_node\<lparr>embedding := Some [1]\<rparr>, image_node\<lparr>embedding := Some [1]\<rparr>]
               [''a'', ''b''] @
           zip [image_node\<lparr>embedding := Some [2]\<rparr>] [''b''])) \<and>
   result_of (insert_nodes True (spy (sample_services (\<lambda>_. False) False None))
     (sample_index False) 4 [text_node, image_node, empty_node] False []) () = Inr () \<and>
   drop 4 (calls_of (insert_nodes True (spy (sample_services (\<lambda>_. False) False None))
     (sample_index False) 4 [text_node, image_node, empty_node] False []) ()) =
     map (\<lambda>c. (c, Returns))
       (mirror_calls (sample_index False) 4
          (zip [text_node\<lparr>embedding := Some [1]\<rparr>, image_node\<lparr>embedding := Some [1]\<rparr>]
               [''a'', ''b''] @
           zip [image_node\<lparr>embedding := Some [2]\<rparr>] [''b'']))"
proof -
  let ?nodes = "[text_node, image_node, empty_node]"
  have nm: "\<not> mirrors (sample_services (\<lambda>_. True) False None) (sample_index False)"
    by (simp add: mirrors_def sample_services_def sample_index_def)
  have m1: "mirrors (sample_services (\<lambda>_. False) False None) (sample_index False)"
    by (simp add: mirrors_def sample_services_def sample_index_def)
  have m2: "result_of (insert_nodes False (spy (sample_services (\<lambda>_. False) False None))
     (sample_index False) 4 ?nodes False []) () = Inr ()"
    by (simp add: result_of_def sample_insert)
  from m1 m2 have m: "mirrors (sample_services (\<lambda>_. False) False None) (sample_index False) \<and>
    ?nodes \<noteq> [] \<and>
    result_of (insert_nodes False (spy (sample_services (\<lambda>_. False) False None))
     (sample_index False) 4 ?nodes False []) () = Inr ()"
    by simp
  from mirroring_condition_and_pairs [where env = "sample_services (\<lambda>_. True) False None"
      and self = "sample_index False" and use_async = False and ix = 4 and nodes = ?nodes
      and sp = False and kw = "[]" and w = "()"] nm
  have a: "\<forall>ev \<in> set (calls_of (insert_nodes False (spy (sample_services (\<lambda>_. True) False None))
        (sample_index False) 4 ?nodes False []) ()). \<not> is_mirror_call (fst ev)"
    by simp
  from mirroring_condition_and_pairs [where env = "sample_services (\<lambda>_. False) False None"
      and self = "sample_index False" and use_async = False and ix = 4 and nodes = ?nodes
      and sp = False and kw = "[]" and w = "()"] m
  obtain store image_store text_nodes tids image_nodes iids where
    b: "calls_of (insert_nodes False (spy (sample_services (\<lambda>_. False) False None))
          (sample_index False) 4 ?nodes False []) () ! 1 =
        (add_call False store text_nodes [], ReturnsIds tids)"
    by blast
  have k: "calls_of (insert_nodes False (spy (sample_services (\<lambda>_. True) False None))
        (sample_index False) 4 ?nodes False []) () =
     [(EmbedNodes [text_node, image_node] text_model False,
        ReturnsEmbeddings (sample_embedding [1] [text_node, image_node])),
     (VectorStoreAdd 0 [text_node\<lparr>embedding := Some [1]\<rparr>, image_node\<lparr>embedding := Some [1]\<rparr>] [],
        ReturnsIds [''a'', ''b'']),
     (EmbedImageNodes [image_node] clip_model False,
        ReturnsEmbeddings (sample_embedding [2] [image_node])),
     (VectorStoreAdd 1 [image_node\<lparr>embedding := Some [2]\<rparr>] [], ReturnsIds [''b''])]"
    by (simp add: calls_of_def sample_insert_keeps_text)
  have d: "drop 4 (calls_of (insert_nodes False (spy (sample_services (\<lambda>_. False) False None))
        (sample_index False) 4 ?nodes False []) ()) =
     [(AddNode 4 text_node ''a'', Returns),
      (AddDocuments 2 [text_node] True, Returns),
      (AddNode 4 image_node ''b'', Returns),
      (AddDocuments 2 [image_node] True, Returns),
      (AddNode 4 image_node ''b'', Returns),
      (AddDocuments 2 [image_node] True, Returns)]"
    by (simp add: calls_of_def sample_insert)
  have e: "map (\<lambda>c. (c, Returns))
       (mirror_calls (sample_index False) 4
          (zip [text_node\<lparr>embedding := Some [1]\<rparr>, image_node\<lparr>embedding := Some [1]\<rparr>]
               [''a'', ''b''] @
           zip [image_node\<lparr>embedding := Some [2]\<rparr>] [''b''])) =
     [(AddNode 4 text_node ''a'', Returns),
      (AddDocuments 2 [text_node] True, Returns),
      (AddNode 4 image_node ''b'', Returns),
      (AddDocuments 2 [image_node] True, Returns),
      (AddNode 4 image_node ''b'', Returns),
      (AddDocuments 2 [image_node] True, Returns)]"
    by (simp add: mirror_calls_def sample_index_def text_node_def image_node_def)
  have m2a: "result_of (insert_nodes True (spy (sample_services (\<lambda>_. False) False None))
     (sample_index False) 4 ?nodes False []) () = Inr ()"
    by (simp add: result_of_def sample_insert_async)
  from mirroring_condition_and_pairs [where env = "sample_services (\<lambda>_. False) False None"
      and self = "sample_index False" and use_async = True and ix = 4 and nodes = ?nodes
      and sp = False and kw = "[]" and w = "()"] m1 m2a
  obtain store' image_store' text_nodes' tids' image_nodes' iids' where
    ba: "calls_of (insert_nodes True (spy (sample_services (\<lambda>_. False) False None))
          (sample_index False) 4 ?nodes False []) () ! 1 =
        (add_call True store' text_nodes' [], ReturnsIds tids')"
    by blast
  have da: "drop 4 (calls_of (insert_nodes True (spy (sample_services (\<lambda>_. False) False None))
        (sample_index False) 4 ?nodes False []) ()) =
     [(AddNode 4 text_node ''a'', Returns),
      (AddDocuments 2 [text_node] True, Returns),
      (AddNode 4 image_node ''b'', Returns),
      (AddDocuments 2 [image_node] True, Returns),
      (AddNode 4 image_node ''b'', Returns),
      (AddDocuments 2 [image_node] True, Returns)]"
    by (simp add: calls_of_def sample_insert_async)
  from a b ba nm m1 m2 m2a show ?thesis
    unfolding k d da e by simp
qed

text \<open>
  Claim C4, as stated, fails on the code: with an image embedder that raises, the
  synchronous insertion of a text node and an image node ends with that error after the
  text partition has been added to the primary vector store.
\<close>

theorem insertion_is_not_all_or_nothing:
  "result_of (add_nodes_to_index (spy (sample_services (\<lambda>_. False) True None))
     (sample_index False) 4 [text_node, image_node, empty_node] False []) () =
     Inl (Raised ''image embedding failed'') \<and>
   (VectorStoreAdd 0
      [text_node\<lparr>embedding := Some [1]\<rparr>, image_node\<lparr>embedding := Some [1]\<rparr>] [],
    ReturnsIds [''a'', ''b'']) \<in>
     set (calls_of (add_nodes_to_index (spy (sample_services (\<lambda>_. False) True None))
       (sample_index False) 4 [text_node, image_node, empty_node] False []) ())"
  using sample_insert_image_fails
  by (simp add: insert_nodes_def result_of_def calls_of_def)

text \<open>
  Claim C4, amended. In a run of insertion on a non-empty batch, through either entry
  point: when the text embedder raises, the run ends with that error and the call of the
  text embedder is the only call made, so no store is touched; when the image embedder
  raises, the run ends with that error and the calls made are the text embedder, the
  \<^verbatim>\<open>add\<close> of the text partition to the primary store, which returned normally, and
  the image embedder, so the image partition is not persisted and nothing is mirrored,
  while the text partition stays persisted.
\<close>

theorem embedding_failure_stops_before_persisting:
  "nodes \<noteq> [] \<longrightarrow>
     ((embed_call use_async self (text_partition nodes) sp False, Raises e) \<in>
        set (calls_of (insert_nodes use_async (spy env) self ix nodes sp kw) w) \<longrightarrow>
      result_of (insert_nodes use_async (spy env) self ix nodes sp kw) w = Inl e \<and>
      calls_of (insert_nodes use_async (spy env) self ix nodes sp kw) w =
        [(embed_call use_async self (text_partition nodes) sp False, Raises e)]) \<and>
     ((embed_call use_async self (image_partition nodes) sp True, Raises e) \<in>
        set (calls_of (insert_nodes use_async (spy env) self ix nodes sp kw) w) \<longrightarrow>
      result_of (insert_nodes use_async (spy env) self ix nodes sp kw) w = Inl e \<and>
      (\<exists>store temb tids.
         map_of (vector_stores (self_storage_context self)) DEFAULT_VECTOR_STORE = Some store \<and>
         calls_of (insert_nodes use_async (spy env) self ix nodes sp kw) w =
           [(embed_call use_async self (text_partition nodes) sp False, ReturnsEmbeddings temb),
            (add_call use_async store (with_embeddings temb (text_partition nodes)) kw,
               ReturnsIds tids),
            (embed_call use_async self (image_partition nodes) sp True, Raises e)]))"
proof
  assume "nodes \<noteq> []"
  from effectD [OF effect_insert_nodes_failure [OF this, where use_async = use_async
        and env = env and self = self and ix = ix and sp = sp and kw = kw], where w = w]
  show "((embed_call use_async self (text_partition nodes) sp False, Raises e) \<in>
        set (calls_of (insert_nodes use_async (spy env) self ix nodes sp kw) w) \<longrightarrow>
      result_of (insert_nodes use_async (spy env) self ix nodes sp kw) w = Inl e \<and>
      calls_of (insert_nodes use_async (spy env) self ix nodes sp kw) w =
        [(embed_call use_async self (text_partition nodes) sp False, Raises e)]) \<and>
     ((embed_call use_async self (image_partition nodes) sp True, Raises e) \<in>
        set (calls_of (insert_nodes use_async (spy env) self ix nodes sp kw) w) \<longrightarrow>
      result_of (insert_nodes use_async (spy env) self ix nodes sp kw) w = Inl e \<and>
      (\<exists>store temb tids.
         map_of (vector_stores (self_storage_context self)) DEFAULT_VECTOR_STORE = Some store \<and>
         calls_of (insert_nodes use_async (spy env) self ix nodes sp kw) w =
           [(embed_call use_async self (text_partition nodes) sp False, ReturnsEmbeddings temb),
            (add_call use_async store (with_embeddings temb (text_partition nodes)) kw,
               ReturnsIds tids),
            (embed_call use_async self (image_partition nodes) sp True, Raises e)]))"
    by blast
qed

theorem embedding_failure_stops_before_persisting_witness:
  "result_of (insert_nodes False
     (spy ((sample_services (\<lambda>_. False) False None)
        \<lparr>embed_nodes := \<lambda>ns m p. raise (Raised ''text embedding failed'')\<rparr>))
     (sample_index False) 4 [text_node, image_node, empty_node] False []) () =
     Inl (Raised ''text embedding failed'') \<and>
   calls_of (insert_nodes False
     (spy ((sample_services (\<lambda>_. False) False None)
        \<lparr>embed_nodes := \<lambda>ns m p. raise (Raised ''text embedding failed'')\<rparr>))
     (sample_index False) 4 [text_node, image_node, empty_node] False []) () =
     [(EmbedNodes [text_node, image_node] text_model False,
        Raises (Raised ''text embedding failed''))] \<and>
   result_of (insert_nodes False (spy (sample_services (\<lambda>_. False) True None))
     (sample_index False) 4 [text_node, image_node, empty_node] False []) () =
     Inl (Raised ''image embedding failed'') \<and>
   map fst (calls_of (insert_nodes False (spy (sample_services (\<lambda>_. False) True None))
     (sample_index False) 4 [text_node, image_node, empty_node] False []) ()) =
     [EmbedNodes [text_node, image_node] text_model False,
      VectorStoreAdd 0
        [text_node\<lparr>embedding := Some [1]\<rparr>, image_node\<lparr>embedding := Some [1]\<rparr>] [],
      EmbedImageNodes [image_node] clip_model False]"
proof -
  let ?nodes = "[text_node, image_node, empty_node]"
  let ?tenv = "(sample_services (\<lambda>_. False) False None)
        \<lparr>embed_nodes := \<lambda>ns m p. raise (Raised ''text embedding failed'')\<rparr>"
  let ?ienv = "sample_services (\<lambda>_. False) True None"
  have tp: "text_partition ?nodes = [text_node, image_node]"
    and ip: "image_partition ?nodes = [image_node]"
    by (simp_all add: text_partition_filter image_partition_filter has_text_def image_bearing_def
        text_node_def image_node_def empty_node_def)
  have ec: "embed_call False (sample_index False) [text_node, image_node] False False =
      EmbedNodes [text_node, image_node] text_model False"
    "embed_call False (sample_index False) [image_node] False True =
      EmbedImageNodes [image_node] clip_model False"
    by (simp_all add: embed_call_def sample_index_def)
  have t: "(embed_call False (sample_index False) (text_partition ?nodes) False False,
      Raises (Raised ''text embedding failed'')) \<in>
    set (calls_of (insert_nodes False (spy ?tenv) (sample_index False) 4 ?nodes False []) ())"
    by (simp add: tp ec calls_of_def sample_insert_text_fails)
  have i: "(embed_call False (sample_index False) (image_partition ?nodes) False True,
      Raises (Raised ''image embedding failed'')) \<in>
    set (calls_of (insert_nodes False (spy ?ienv) (sample_index False) 4 ?nodes False []) ())"
    by (simp add: ip ec calls_of_def sample_insert_image_fails)
  from embedding_failure_stops_before_persisting [where nodes = ?nodes and use_async = False
      and self = "sample_index False" and sp = False and env = ?tenv and ix = 4 and kw = "[]"
      and w = "()" and e = "Raised ''text embedding failed''"] t
  have a: "result_of (insert_nodes False (spy ?tenv) (sample_index False) 4 ?nodes False []) () =
      Inl (Raised ''text embedding failed'') \<and>
    calls_of (insert_nodes False (spy ?tenv) (sample_index False) 4 ?nodes False []) () =
      [(embed_call False (sample_index False) (text_partition ?nodes) False False,
        Raises (Raised ''text embedding failed''))]"
    by simp
  from embedding_failure_stops_before_persisting [where nodes = ?nodes and use_async = False
      and self = "sample_index False" and sp = False and env = ?ienv and ix = 4 and kw = "[]"
      and w = "()" and e = "Raised ''image embedding failed''"] i
  have b: "result_of (insert_nodes False (spy ?ienv) (sample_index False) 4 ?nodes False []) () =
      Inl (Raised ''image embedding failed'')"
    by simp
  from a b show ?thesis
    by (simp add: tp ec calls_of_def sample_insert_image_fails)
qed

text \<open>
  Claim C6. In every run of insertion, through either entry point and whether or not the
  run ends normally, every node handed to the index structure (\<^verbatim>\<open>add_node\<close>) or to
  the document store (\<^verbatim>\<open>add_documents\<close>) has no embedding.
\<close>

theorem mirrored_copies_have_no_embedding:
  "\<forall>ev \<in> set (calls_of (insert_nodes use_async (spy env) self ix nodes sp kw) w).
     \<forall>n \<in> set (mirrored_nodes (fst ev)). embedding n = None"
proof (cases "nodes = []")
  case True
  then show ?thesis by (simp add: calls_of_insert_empty)
next
  case False
  then obtain store image_store temb tids iemb iids where
    p: "prefix (map fst (calls_of (insert_nodes use_async (spy env) self ix nodes sp kw) w))
       (map fst (insert_log use_async (mirrors env self) self ix nodes sp kw
          store image_store temb tids iemb iids))"
    by (rule insert_nodes_run)
  show ?thesis
  proof (intro ballI)
    fix ev n
    assume ev: "ev \<in> set (calls_of (insert_nodes use_async (spy env) self ix nodes sp kw) w)"
      and n: "n \<in> set (mirrored_nodes (fst ev))"
    from call_in_prefix [OF ev p] insert_log_calls n
    have "fst ev \<in> set (mirror_calls self ix
      (zip (with_embeddings temb (text_partition nodes) @ with_embeddings iemb (image_partition nodes))
           (tids @ iids)))"
      by fastforce
    with n show "embedding n = None"
      by (auto dest!: mirror_calls_cases)
  qed
qed

theorem mirrored_copies_have_no_embedding_witness:
  "(AddDocuments 2 [image_node] True, Returns) \<in>
     set (calls_of (insert_nodes False (spy (sample_services (\<lambda>_. False) False None))
       (sample_index False) 4 [text_node, image_node, empty_node] False []) ()) \<and>
   image_node \<in> set (mirrored_nodes (fst (AddDocuments 2 [image_node] True, Returns))) \<and>
   embedding image_node = None"
proof -
  let ?calls = "calls_of (insert_nodes False (spy (sample_services (\<lambda>_. False) False None))
       (sample_index False) 4 [text_node, image_node, empty_node] False []) ()"
  have m: "(AddDocuments 2 [image_node] True, Returns) \<in> set ?calls"
    by (simp add: calls_of_def sample_insert)
  have n: "image_node \<in> set (mirrored_nodes (fst (AddDocuments 2 [image_node] True, Returns)))"
    by simp
  from mirrored_copies_have_no_embedding [rule_format, OF m n] m n
  show ?thesis by simp
qed

text \<open>
  Claim C10. A node that is not an image node and has empty text is put in neither
  partition; in every run of insertion, through either entry point, no collaborator call
  (embedding, vector store, index structure, document store) receives a copy of it; and
  as long as another node remains, insertion behaves exactly as it does on the batch
  without the node. A batch made only of such nodes hands no node to any collaborator
  (the emptiness test of lines 201 and 252 precedes the partition, so the embedders and
  the stores are still called, with empty lists). In every case insertion has no error
  of its own for such a node: it ends normally unless a collaborator call raised, a
  namespace is not registered, or an embedder returned a map without the id of a node it
  was given, which is never a copy of the dropped node.
\<close>

theorem empty_plain_node_is_dropped:
  "(\<not> image_bearing n \<and> \<not> has_text n \<longrightarrow>
     n \<notin> set (image_partition nodes) \<and> n \<notin> set (text_partition nodes) \<and>
     (\<forall>ev \<in> set (calls_of (insert_nodes use_async (spy env) self ix nodes sp kw) w).
        \<forall>m \<in> set (nodes_of_call (fst ev)). \<not> copy_of m n) \<and>
     (filter (\<lambda>m. m \<noteq> n) nodes \<noteq> [] \<longrightarrow>
        insert_nodes use_async env' self ix nodes sp kw w' =
        insert_nodes use_async env' self ix (filter (\<lambda>m. m \<noteq> n) nodes) sp kw w')) \<and>
   ((\<forall>m \<in> set nodes. \<not> image_bearing m \<and> \<not> has_text m) \<longrightarrow>
      (\<forall>ev \<in> set (calls_of (insert_nodes use_async (spy env) self ix nodes sp kw) w).
         nodes_of_call (fst ev) = [])) \<and>
   (result_of (insert_nodes use_async (spy env) self ix nodes sp kw) w = Inr () \<or>
    (\<exists>e. result_of (insert_nodes use_async (spy env) self ix nodes sp kw) w = Inl e \<and>
       error_source self e (calls_of (insert_nodes use_async (spy env) self ix nodes sp kw) w)))"
proof (intro conjI)
  show "\<not> image_bearing n \<and> \<not> has_text n \<longrightarrow>
     n \<notin> set (image_partition nodes) \<and> n \<notin> set (text_partition nodes) \<and>
     (\<forall>ev \<in> set (calls_of (insert_nodes use_async (spy env) self ix nodes sp kw) w).
        \<forall>m \<in> set (nodes_of_call (fst ev)). \<not> copy_of m n) \<and>
     (filter (\<lambda>m. m \<noteq> n) nodes \<noteq> [] \<longrightarrow>
        insert_nodes use_async env' self ix nodes sp kw w' =
        insert_nodes use_async env' self ix (filter (\<lambda>m. m \<noteq> n) nodes) sp kw w')"
    by (rule empty_plain_node_is_dropped_core)
  show "(\<forall>m \<in> set nodes. \<not> image_bearing m \<and> \<not> has_text m) \<longrightarrow>
      (\<forall>ev \<in> set (calls_of (insert_nodes use_async (spy env) self ix nodes sp kw) w).
         nodes_of_call (fst ev) = [])"
    by (blast intro: only_empty_nodes_reach_nobody)
  show "result_of (insert_nodes use_async (spy env) self ix nodes sp kw) w = Inr () \<or>
    (\<exists>e. result_of (insert_nodes use_async (spy env) self ix nodes sp kw) w = Inl e \<and>
       error_source self e (calls_of (insert_nodes use_async (spy env) self ix nodes sp kw) w))"
    by (rule insert_nodes_progress)
qed

theorem empty_plain_node_is_dropped_witness:
  "\<not> image_bearing empty_node \<and> \<not> has_text empty_node \<and>
   empty_node \<notin> set (image_partition [text_node, image_node, empty_node]) \<and>
   empty_node \<notin> set (text_partition [text_node, image_node, empty_node]) \<and>
   (EmbedNodes [text_node, image_node] text_model False,
      ReturnsEmbeddings (sample_embedding [1] [text_node, image_node])) \<in>
     set (calls_of (insert_nodes False (spy (sample_services (\<lambda>_. False) False None))
       (sample_index False) 4 [text_node, image_node, empty_node] False []) ()) \<and>
   \<not> copy_of text_node empty_node \<and>
   insert_nodes False (sample_services (\<lambda>_. False) False None) (sample_index False) 4
     [text_node, image_node, empty_node] False [] () =
   insert_nodes False (sample_services (\<lambda>_. False) False None) (sample_index False) 4
     [text_node, image_node] False [] () \<and>
   result_of (insert_nodes False (spy (sample_services (\<lambda>_. False) False None))
     (sample_index False) 4 [empty_node] False []) () = Inr () \<and>
   map (nodes_of_call \<circ> fst)
     (calls_of (insert_nodes False (spy (sample_services (\<lambda>_. False) False None))
        (sample_index False) 4 [empty_node] False []) ()) = [[], [], [], []] \<and>
   result_of (insert_nodes True (spy (sample_services (\<lambda>_. False) False None))
     (sample_index False) 4 [empty_node] False []) () = Inr () \<and>
   map (nodes_of_call \<circ> fst)
     (calls_of (insert_nodes True (spy (sample_services (\<lambda>_. False) False None))
        (sample_index False) 4 [empty_node] False []) ()) = [[], [], [], []]"
proof -
  let ?nodes = "[text_node, image_node, empty_node]"
  let ?env = "sample_services (\<lambda>_. False) False None"
  let ?calls = "calls_of (insert_nodes False (spy ?env) (sample_index False) 4 ?nodes False []) ()"
  have d: "\<not> image_bearing empty_node \<and> \<not> has_text empty_node"
    by (simp add: image_bearing_def has_text_def empty_node_def)
  have m: "(EmbedNodes [text_node, image_node] text_model False,
      ReturnsEmbeddings (sample_embedding [1] [text_node, image_node])) \<in> set ?calls"
    by (simp add: calls_of_def sample_insert)
  have f: "filter (\<lambda>m. m \<noteq> empty_node) ?nodes = [text_node, image_node]"
    by (simp add: text_node_def image_node_def empty_node_def)
  have c: "\<not> copy_of text_node empty_node"
    by (simp add: copy_of_def text_node_def empty_node_def)
  from d empty_plain_node_is_dropped [where n = empty_node and nodes = ?nodes
      and use_async = False and env = ?env
      and self = "sample_index False" and ix = 4 and sp = False and kw = "[]" and w = "()"
      and env' = ?env and w' = "()"]
  have one: "empty_node \<notin> set (image_partition ?nodes)"
    "empty_node \<notin> set (text_partition ?nodes)"
    "insert_nodes False ?env (sample_index False) 4 ?nodes False [] () =
     insert_nodes False ?env (sample_index False) 4 [text_node, image_node] False [] ()"
    using f by simp_all
  have all_empty: "\<forall>m \<in> set [empty_node]. \<not> image_bearing m \<and> \<not> has_text m"
    using d by simp
  from all_empty empty_plain_node_is_dropped [where n = empty_node and nodes = "[empty_node]"
      and use_async = False and env = ?env
      and self = "sample_index False" and ix = 4 and sp = False and kw = "[]" and w = "()"
      and env' = ?env and w' = "()"]
  have two: "\<forall>ev \<in> set (calls_of (insert_nodes False (spy ?env) (sample_index False) 4
      [empty_node] False []) ()). nodes_of_call (fst ev) = []"
    by blast
  from all_empty empty_plain_node_is_dropped [where n = empty_node and nodes = "[empty_node]"
      and use_async = True and env = ?env
      and self = "sample_index False" and ix = 4 and sp = False and kw = "[]" and w = "()"
      and env' = ?env and w' = "()"]
  have three: "\<forall>ev \<in> set (calls_of (insert_nodes True (spy ?env) (sample_index False) 4
      [empty_node] False []) ()). nodes_of_call (fst ev) = []"
    by blast
  have runs: "result_of (insert_nodes False (spy ?env) (sample_index False) 4 [empty_node]
      False []) () = Inr ()"
    "map (nodes_of_call \<circ> fst) (calls_of (insert_nodes False (spy ?env) (sample_index False) 4
      [empty_node] False []) ()) = [[], [], [], []]"
    "result_of (insert_nodes True (spy ?env) (sample_index False) 4 [empty_node]
      False []) () = Inr ()"
    "map (nodes_of_call \<circ> fst) (calls_of (insert_nodes True (spy ?env) (sample_index False) 4
      [empty_node] False []) ()) = [[], [], [], []]"
    by (simp_all add: result_of_def calls_of_def sample_insert_only_empty
        sample_insert_only_empty_async)
  from d m c one two three runs show ?thesis by blast
qed

text \<open>
  Claim C7. The asynchronous entry point is the synchronous one run over the awaited
  variants of the three collaborator operations insertion uses (the two embedding
  functions and the \<^verbatim>\<open>add\<close> of a vector store): the same partition, the same steps in
  the same order. Hence, when these variants behave as their synchronous twins, it
  returns the same result and leaves the same world as the synchronous entry point, for
  every batch and every starting world.
\<close>

theorem async_insert_equals_sync_insert:
  "async_add_nodes_to_index env self index_struct nodes show_progress insert_kwargs w =
     add_nodes_to_index (awaited env) self index_struct nodes show_progress insert_kwargs w \<and>
   (async_embed_nodes env = embed_nodes env \<and>
    async_embed_image_nodes env = embed_image_nodes env \<and>
    vector_store_async_add env = vector_store_add env \<longrightarrow>
      async_add_nodes_to_index env self index_struct nodes show_progress insert_kwargs w =
      add_nodes_to_index env self index_struct nodes show_progress insert_kwargs w)"
  by (simp add: async_add_nodes_to_index_def add_nodes_to_index_def aget_node_with_embedding_def
      get_node_with_embedding_def mirror_nodes_awaited awaited_simps cong: if_cong)

theorem async_insert_equals_sync_insert_witness:
  "async_embed_nodes (sample_services (\<lambda>_. False) False None) =
     embed_nodes (sample_services (\<lambda>_. False) False None) \<and>
   async_embed_image_nodes (sample_services (\<lambda>_. False) False None) =
     embed_image_nodes (sample_services (\<lambda>_. False) False None) \<and>
   vector_store_async_add (sample_services (\<lambda>_. False) False None) =
     vector_store_add (sample_services (\<lambda>_. False) False None) \<and>
   async_add_nodes_to_index (sample_services (\<lambda>_. False) False None) (sample_index False) 4
     [text_node, image_node] False [] () =
   add_nodes_to_index (sample_services (\<lambda>_. False) False None) (sample_index False) 4
     [text_node, image_node] False [] () \<and>
   add_nodes_to_index (sample_services (\<lambda>_. False) False None) (sample_index False) 4
     [text_node, image_node] False [] () = (Inr (), ())"
proof -
  have eqs: "async_embed_nodes (sample_services (\<lambda>_. False) False None) =
        embed_nodes (sample_services (\<lambda>_. False) False None) \<and>
    async_embed_image_nodes (sample_services (\<lambda>_. False) False None) =
        embed_image_nodes (sample_services (\<lambda>_. False) False None) \<and>
    vector_store_async_add (sample_services (\<lambda>_. False) False None) =
        vector_store_add (sample_services (\<lambda>_. False) False None)"
    by (simp add: sample_services_def)
  have run: "add_nodes_to_index (sample_services (\<lambda>_. False) False None) (sample_index False) 4
     [text_node, image_node] False [] () = (Inr (), ())"
    by (simp add: sample_defs)
  from async_insert_equals_sync_insert [where env = "sample_services (\<lambda>_. False) False None"
      and self = "sample_index False" and index_struct = 4 and nodes = "[text_node, image_node]"
      and show_progress = False and insert_kwargs = "[]" and w = "()"] eqs
  have "async_add_nodes_to_index (sample_services (\<lambda>_. False) False None) (sample_index False) 4
     [text_node, image_node] False [] () =
   add_nodes_to_index (sample_services (\<lambda>_. False) False None) (sample_index False) 4
     [text_node, image_node] False [] ()"
    by blast
  with eqs run show ?thesis by blast
qed

subsection \<open>Deletion\<close>

text \<open>
  Claim C1, evaluated on the code. The clean-up per node id is guarded by
  \<^verbatim>\<open>self._store_nodes_override or self._vector_store.stores_text\<close>, not by the
  condition under which insertion mirrors. With a primary store that does not store text
  and the override off (mirroring was active), deleting a document whose node ids the
  document store knows makes no reverse lookup and deletes no node id from the index
  structure. With a primary store that stores text and the override off (mirroring was
  not active), the lookup and the clean-up per node id are made, once per registered
  vector store.
\<close>

theorem delete_cleanup_tests_the_wrong_condition:
  "\<not> stores_text (sample_services (\<lambda>_. False) False (Some [''n1'']))
       (self_vector_store (sample_index False)) \<and>
   calls_of (delete_ref_doc (spy (sample_services (\<lambda>_. False) False (Some [''n1''])))
     (sample_index False) ''doc'' False []) () =
     [(VectorStoreDelete 0 ''doc'', Returns),
      (VectorStoreDelete 1 ''doc'', Returns),
      (AddIndexStruct 3 4, Returns)] \<and>
   stores_text (sample_services (\<lambda>_. True) False (Some [''n1'']))
       (self_vector_store (sample_index False)) \<and>
   self_store_nodes_override (sample_index False) = False \<and>
   calls_of (delete_ref_doc (spy (sample_services (\<lambda>_. True) False (Some [''n1''])))
     (sample_index False) ''doc'' False []) () =
     [(VectorStoreDelete 0 ''doc'', Returns),
      (GetRefDocInfo 2 ''doc'', ReturnsRefDocInfo (Some [''n1''])),
      (IndexStructDelete 4 ''n1'', Returns),
      (VectorStoreDelete 0 ''n1'', Returns),
      (VectorStoreDelete 1 ''doc'', Returns),
      (GetRefDocInfo 2 ''doc'', ReturnsRefDocInfo (Some [''n1''])),
      (IndexStructDelete 4 ''n1'', Returns),
      (VectorStoreDelete 0 ''n1'', Returns),
      (AddIndexStruct 3 4, Returns)]"
  by (simp add: calls_of_def sample_delete_mirrored sample_delete_not_mirrored)
     (simp add: sample_services_def sample_index_def)

text \<open>
  Claim C8. Deletion raises nothing of its own: when no collaborator call of a run
  raised, the run ends normally (with the collaborators logged, and so with the
  collaborators themselves). When moreover no reverse lookup found node ids (the
  document is unknown to the document store), the calls are exactly: \<^verbatim>\<open>delete\<close> of
  the document id on every registered vector store (each followed by the reverse lookup
  when the test of line 304 holds), then, if \<^verbatim>\<open>delete_from_docstore\<close> is set,
  \<^verbatim>\<open>delete_ref_doc\<close> on the document store with \<^verbatim>\<open>raise_error=False\<close>, then
  \<^verbatim>\<open>add_index_struct\<close>; no per-node clean-up follows a lookup that finds nothing.
\<close>

theorem delete_of_unknown_document_raises_nothing:
  "((\<forall>ev \<in> set (calls_of (delete_ref_doc (spy env) self ref_doc_id delete_from_docstore
                              delete_kwargs) w). \<not> raised (snd ev)) \<longrightarrow>
      result_of (delete_ref_doc (spy env) self ref_doc_id delete_from_docstore delete_kwargs) w =
        Inr () \<and>
      fst (delete_ref_doc env self ref_doc_id delete_from_docstore delete_kwargs w) = Inr ()) \<and>
   ((\<forall>ev \<in> set (calls_of (delete_ref_doc (spy env) self ref_doc_id delete_from_docstore
                              delete_kwargs) w). \<not> raised (snd ev) \<and> \<not> found (snd ev)) \<longrightarrow>
      map fst (calls_of (delete_ref_doc (spy env) self ref_doc_id delete_from_docstore
                           delete_kwargs) w) =
        delete_calls self
          (self_store_nodes_override self \<or> stores_text env (self_vector_store self))
          ref_doc_id delete_from_docstore)"
proof -
  let ?r = "result_of (delete_ref_doc (spy env) self ref_doc_id delete_from_docstore
      delete_kwargs) w"
  let ?calls = "calls_of (delete_ref_doc (spy env) self ref_doc_id delete_from_docstore
      delete_kwargs) w"
  from effectD [OF effect_delete_ref_doc, of env self ref_doc_id delete_from_docstore
      delete_kwargs w]
  have e: "\<forall>e. ?r = Inl e \<longrightarrow> (\<exists>c. (c, Raises e) \<in> set ?calls)"
    and c: "(\<forall>ev\<in>set ?calls. \<not> raised (snd ev) \<and> \<not> found (snd ev)) \<longrightarrow>
           map fst ?calls =
             delete_calls self
               (self_store_nodes_override self \<or> stores_text env (self_vector_store self))
               ref_doc_id delete_from_docstore"
    by blast+
  have t: "?r = fst (delete_ref_doc env self ref_doc_id delete_from_docstore delete_kwargs w)"
    by (rule agreeD [OF agree_delete_ref_doc])
  have "(\<forall>ev \<in> set ?calls. \<not> raised (snd ev)) \<longrightarrow> ?r = Inr ()"
  proof
    assume nr: "\<forall>ev \<in> set ?calls. \<not> raised (snd ev)"
    show "?r = Inr ()"
    proof (cases ?r)
      case (Inl err)
      with e obtain c where "(c, Raises err) \<in> set ?calls" by blast
      with nr show ?thesis by force
    next
      case (Inr u)
      then show ?thesis by simp
    qed
  qed
  with c t show ?thesis by metis
qed

theorem delete_of_unknown_document_raises_nothing_witness:
  "result_of (delete_ref_doc (spy (sample_services (\<lambda>_. True) False None)) (sample_index False)
     ''doc'' True []) () = Inr () \<and>
   fst (delete_ref_doc (sample_services (\<lambda>_. True) False None) (sample_index False)
     ''doc'' True [] ()) = Inr () \<and>
   map fst (calls_of (delete_ref_doc (spy (sample_services (\<lambda>_. True) False None))
     (sample_index False) ''doc'' True []) ()) =
     [VectorStoreDelete 0 ''doc'', GetRefDocInfo 2 ''doc'',
      VectorStoreDelete 1 ''doc'', GetRefDocInfo 2 ''doc'',
      DocstoreDeleteRefDoc 2 ''doc'' False, AddIndexStruct 3 4]"
proof -
  let ?calls = "calls_of (delete_ref_doc (spy (sample_services (\<lambda>_. True) False None))
     (sample_index False) ''doc'' True []) ()"
  have h: "\<forall>ev \<in> set ?calls. \<not> raised (snd ev) \<and> \<not> found (snd ev)"
    by (simp add: calls_of_def sample_delete_unknown)
  have d: "delete_calls (sample_index False)
      (self_store_nodes_override (sample_index False) \<or>
       stores_text (sample_services (\<lambda>_. True) False None) (self_vector_store (sample_index False)))
      ''doc'' True =
     [VectorStoreDelete 0 ''doc'', GetRefDocInfo 2 ''doc'',
      VectorStoreDelete 1 ''doc'', GetRefDocInfo 2 ''doc'',
      DocstoreDeleteRefDoc 2 ''doc'' False, AddIndexStruct 3 4]"
    by (simp add: delete_calls_def sample_index_def sample_services_def sample_context_def)
  from delete_of_unknown_document_raises_nothing [of "sample_services (\<lambda>_. True) False None"
      "sample_index False" "''doc''" True "[]" "()"] h d
  show ?thesis by simp
qed


end
